theory Spec2Isabelle
  imports Main
begin

section \<open>Node lifecycle of the testbed harness (package iptbutil)\<close>

text \<open>
  The theory embeds \<^verbatim>\<open>util/localnode.go\<close> and \<^verbatim>\<open>util/localfilecoin.go\<close>.
  Every Go function keeps its name; a method \<^verbatim>\<open>(n *LocalNode) Start\<close> is written
  \<open>LocalNode_Start\<close>. A function that touches the operating system takes the
  \<open>platform\<close> (what the Go standard library, the kernel and the collaborators outside
  these files answer) and the \<open>world\<close> (files and the log of process operations)
  and returns the new world next to its result. What the functions print with
  \<^verbatim>\<open>fmt.Printf\<close> and \<^verbatim>\<open>fmt.Println\<close> is left out.
\<close>

subsection \<open>Strings\<close>

text \<open>
  \<^verbatim>\<open>strings.Split(s, sep)\<close> for a separator of one character: the pieces of \<open>s\<close>
  between the separators, never an empty list (\<^verbatim>\<open>Split("", "=")\<close> is \<^verbatim>\<open>[""]\<close>).
\<close>

fun Split :: "string \<Rightarrow> char \<Rightarrow> string list" where
  "Split [] sep = [[]]"
| "Split (c # cs) sep =
     (if c = sep then [] # Split cs sep
      else (case Split cs sep of
              p # ps \<Rightarrow> (c # p) # ps
            | [] \<Rightarrow> [[c]]))"

text \<open>Decimal digits of a number, as \<^verbatim>\<open>%d\<close> and \<^verbatim>\<open>fmt.Sprint\<close> print an int.\<close>

fun digits :: "nat \<Rightarrow> string" where
  "digits n =
     (if n < 10 then [''0123456789'' ! n]
      else digits (n div 10) @ [''0123456789'' ! (n mod 10)])"

definition Sprint :: "int \<Rightarrow> string" where
  "Sprint i = (if i < 0 then CHR ''-'' # digits (nat (- i)) else digits (nat i))"

subsection \<open>Errors and results\<close>

text \<open>
  The error numbers a failing system call reports. \<^verbatim>\<open>ENOENT\<close> is not among them:
  a file that is missing is reported by the error \<open>ErrNotExist\<close> below. The two
  files never tell one of these numbers from another.
\<close>

datatype errno = EPERM | ESRCH | EACCES | ENOTDIR | EISDIR | ENOSPC | EROFS | EIO

text \<open>
  The error values of the two files, one constructor per \<^verbatim>\<open>fmt.Errorf\<close> or
  \<^verbatim>\<open>errors.New\<close> of the source, and the errors that come from outside:
  \<open>ErrNotExist\<close> is the error of a call on a missing file, the only one for which
  \<^verbatim>\<open>os.IsNotExist\<close> holds, \<open>SyscallError\<close> any other failure of a system call, \<open>NumError\<close> the failure of
  \<^verbatim>\<open>strconv.Atoi\<close>, \<open>ErrExternal\<close> a failure reported by a collaborator.
\<close>

datatype error =
    ErrNotExist
  | SyscallError errno
  | NumError string
  | ErrExternal string
  | ErrAlreadyRunning
  | ErrKillingDaemon string error
  | ErrTimedOut
  | ErrRemovingPidFile string error
  | ErrNoShell
  | ErrCheckPeerID
  | ErrCmd error string string
  | ErrIndexOutOfRange

text \<open>
  What a call does: it returns a value, returns an error, or panics.
  A Go function of result type \<^verbatim>\<open>error\<close> has the type \<open>unit res\<close>.
\<close>

datatype 'a res = Ok 'a | Err error | Panic error

definition IsNotExist :: "error \<Rightarrow> bool" where
  "IsNotExist err = (err = ErrNotExist)"

subsection \<open>Nodes\<close>

record local_node =
  ln_Dir :: string
  ln_PeerID :: string

record filecoin_node =
  fn_Dir :: string
  fn_PeerID :: string
  fn_ApiPort :: string

text \<open>The interface \<^verbatim>\<open>TestbedNode\<close> with its two implementations.\<close>

datatype testbed_node = Local local_node | Filecoin filecoin_node

fun GetPeerID :: "testbed_node \<Rightarrow> string" where
  "GetPeerID (Local n) = ln_PeerID n"
| "GetPeerID (Filecoin fn) = fn_PeerID fn"

record config =
  Identity_PeerID :: string

subsection \<open>The world and the platform\<close>

text \<open>
  A path is kept as the pair that \<^verbatim>\<open>filepath.Join(dir, name)\<close> is given: the
  directory and the name of the file inside it.
\<close>

type_synonym path = "string \<times> string"

definition Join :: "string \<Rightarrow> string \<Rightarrow> path" where
  "Join dir name = (dir, name)"

datatype signal = Signal0 | SIGINT | SIGQUIT | SIGKILL

text \<open>\<^verbatim>\<open>exec.Cmd\<close>: the fields the two files set.\<close>

record cmd =
  cmd_Path :: string
  cmd_Args :: "string list"
  cmd_Dir :: string
  cmd_Env :: "string list"
  cmd_Stdout :: "path option"
  cmd_Stderr :: "path option"
  cmd_SysProcAttr :: "string option"

text \<open>
  The log of what the harness did to processes, oldest first, each entry with the answer
  it got: a signal sent to a process identifier, a sleep in milliseconds, a daemon
  started with \<^verbatim>\<open>cmd.Start\<close>, a command run to its end by \<^verbatim>\<open>cmd.Run\<close> (arguments,
  environment; error, standard output, standard error).
\<close>

datatype event =
    EvSignal int signal "error option"
  | EvSleep nat
  | EvStart cmd "error + int"
  | EvRun "string list" "string list" "error option \<times> string \<times> string"

record world =
  files :: "path \<Rightarrow> string option"
  trace :: "event list"

datatype io_op = OpRead path | OpCreate path | OpWrite path | OpRemove path

text \<open>
  Everything the two files call and do not define. The answers may depend on the world,
  so a process may die at any moment and a command may fail at one attempt and succeed
  at the next.
  \<^item> \<open>Environ\<close>, \<open>Getenv\<close>: \<^verbatim>\<open>os.Environ()\<close>, \<^verbatim>\<open>os.Getenv\<close>.
  \<^item> \<open>Atoi\<close>: \<^verbatim>\<open>strconv.Atoi\<close>, \<open>None\<close> where it returns an error.
  \<^item> \<open>TrimSpace\<close>: \<^verbatim>\<open>strings.TrimSpace\<close>.
  \<^item> \<open>FindProcess_err\<close>: the error of \<^verbatim>\<open>os.FindProcess\<close>, if any.
  \<^item> \<open>Signal_err\<close>: the error of \<^verbatim>\<open>p.Signal(sig)\<close>, if any.
  \<^item> \<open>io_err\<close>: the failure of a file operation for another reason than a missing
    file, if any: a component of the path that is not a directory or cannot be searched,
    a file system that is read-only or full. It is asked about every path, whether the
    file is there or not.
  \<^item> \<open>Start_res\<close>: \<^verbatim>\<open>cmd.Start()\<close>, the process identifier on success.
  \<^item> \<open>Run_res\<close>: \<^verbatim>\<open>cmd.Run()\<close> with both outputs captured.
  \<^item> \<open>serial_Load\<close>: \<^verbatim>\<open>serial.Load\<close> of go-ipfs.
  \<^item> \<open>setupOpt\<close>, \<open>waitOnAPI\<close>, \<open>LoadNodes\<close>: functions of the package that
    are defined in other files.
\<close>

record platform =
  Environ :: "string list"
  Getenv :: "string \<Rightarrow> string"
  Atoi :: "string \<Rightarrow> int option"
  TrimSpace :: "string \<Rightarrow> string"
  FindProcess_err :: "int \<Rightarrow> error option"
  Signal_err :: "world \<Rightarrow> int \<Rightarrow> signal \<Rightarrow> error option"
  io_err :: "world \<Rightarrow> io_op \<Rightarrow> errno option"
  Start_res :: "world \<Rightarrow> cmd \<Rightarrow> error + int"
  Run_res :: "world \<Rightarrow> string list \<Rightarrow> string list \<Rightarrow> error option \<times> string \<times> string"
  serial_Load :: "world \<Rightarrow> path \<Rightarrow> error + config"
  setupOpt :: "cmd \<Rightarrow> cmd"
  waitOnAPI :: "testbed_node \<Rightarrow> world \<Rightarrow> error option \<times> world"
  LoadNodes :: "world \<Rightarrow> error + testbed_node list"

subsection \<open>System calls\<close>

definition Signal :: "platform \<Rightarrow> int \<Rightarrow> signal \<Rightarrow> world \<Rightarrow> error option \<times> world" where
  "Signal pf pid s w =
     (let r = Signal_err pf w pid s
      in (r, w\<lparr>trace := trace w @ [EvSignal pid s r]\<rparr>))"

definition Sleep :: "nat \<Rightarrow> world \<Rightarrow> world" where
  "Sleep ms w = w\<lparr>trace := trace w @ [EvSleep ms]\<rparr>"

definition Start :: "platform \<Rightarrow> cmd \<Rightarrow> world \<Rightarrow> (error + int) \<times> world" where
  "Start pf c w =
     (let r = Start_res pf w c
      in (r, w\<lparr>trace := trace w @ [EvStart c r]\<rparr>))"

definition Run :: "platform \<Rightarrow> string list \<Rightarrow> string list \<Rightarrow> world
    \<Rightarrow> (error option \<times> string \<times> string) \<times> world" where
  "Run pf args env w =
     (let r = Run_res pf w args env
      in (r, w\<lparr>trace := trace w @ [EvRun args env r]\<rparr>))"

text \<open>
  \<^verbatim>\<open>ioutil.ReadFile\<close>: the failure the platform reports, for a file that is there
  and for one that is not; otherwise the not-exist error for a file that is not there,
  and the content of one that is.
\<close>

definition ReadFile :: "platform \<Rightarrow> path \<Rightarrow> world \<Rightarrow> error + string" where
  "ReadFile pf p w =
     (case io_err pf w (OpRead p) of
        Some e \<Rightarrow> Inl (SyscallError e)
      | None \<Rightarrow>
          (case files w p of
             None \<Rightarrow> Inl ErrNotExist
           | Some b \<Rightarrow> Inr b))"

text \<open>
  \<^verbatim>\<open>os.Create\<close> opens with \<^verbatim>\<open>O_RDWR|O_CREATE|O_TRUNC\<close>: the file exists and is
  empty afterwards, whatever it held before.
\<close>

definition Create :: "platform \<Rightarrow> path \<Rightarrow> world \<Rightarrow> error option \<times> world" where
  "Create pf p w =
     (case io_err pf w (OpCreate p) of
        Some e \<Rightarrow> (Some (SyscallError e), w)
      | None \<Rightarrow> (None, w\<lparr>files := (files w)(p \<mapsto> [])\<rparr>))"

definition WriteFile :: "platform \<Rightarrow> path \<Rightarrow> string \<Rightarrow> world \<Rightarrow> error option \<times> world" where
  "WriteFile pf p data w =
     (case io_err pf w (OpWrite p) of
        Some e \<Rightarrow> (Some (SyscallError e), w)
      | None \<Rightarrow> (None, w\<lparr>files := (files w)(p \<mapsto> data)\<rparr>))"

text \<open>
  \<^verbatim>\<open>os.Remove\<close>: the failure the platform reports, otherwise the not-exist error
  for a file that is not there; a file that is there is gone afterwards.
\<close>

definition Remove :: "platform \<Rightarrow> path \<Rightarrow> world \<Rightarrow> error option \<times> world" where
  "Remove pf p w =
     (case io_err pf w (OpRemove p) of
        Some e \<Rightarrow> (Some (SyscallError e), w)
      | None \<Rightarrow>
          (case files w p of
             None \<Rightarrow> (Some ErrNotExist, w)
           | Some b \<Rightarrow> (None, w\<lparr>files := (files w)(p := None)\<rparr>)))"

text \<open>\<^verbatim>\<open>exec.Command(name, arg...)\<close>.\<close>

definition Command :: "string \<Rightarrow> string list \<Rightarrow> cmd" where
  "Command name arg =
     \<lparr>cmd_Path = name, cmd_Args = name # arg, cmd_Dir = [], cmd_Env = [],
      cmd_Stdout = None, cmd_Stderr = None, cmd_SysProcAttr = None\<rparr>"

subsection \<open>Environment builder\<close>

text \<open>
  The loop \<^verbatim>\<open>for i, e := range envs\<close> of both \<^verbatim>\<open>envForDaemon\<close> methods
  (\<^verbatim>\<open>localnode.go\<close>, lines 132 to 145; \<^verbatim>\<open>localfilecoin.go\<close>, lines 25 to 38), from
  index \<open>i\<close> on: \<open>Some\<close> of the list with the first entry of that name overwritten
  when the loop returns from inside, \<open>None\<close> when it runs to the end.
\<close>

function envForDaemon_loop :: "string \<Rightarrow> string \<Rightarrow> string list \<Rightarrow> nat \<Rightarrow> string list option" where
  "envForDaemon_loop name npath envs i =
     (if i < length envs then
        (let p = Split (envs ! i) CHR ''='' in
         if p ! 0 = name then Some (envs[i := npath])
         else envForDaemon_loop name npath envs (Suc i))
      else None)"
  by pat_completeness auto
termination
  by (relation "measure (\<lambda>(name, npath, envs, i). length envs - i)") auto

text \<open>The error both methods return is always nil, so the result is the list alone.\<close>

definition LocalNode_envForDaemon :: "platform \<Rightarrow> local_node \<Rightarrow> string list" where
  "LocalNode_envForDaemon pf n =
     (let envs = Environ pf;
          dir = ln_Dir n;
          npath = ''IPFS_PATH='' @ dir
      in case envForDaemon_loop ''IPFS_PATH'' npath envs 0 of
           Some r \<Rightarrow> r
         | None \<Rightarrow> envs @ [npath])"

definition FilecoinNode_envForDaemon :: "platform \<Rightarrow> filecoin_node \<Rightarrow> string list" where
  "FilecoinNode_envForDaemon pf fn =
     (let envs = Environ pf;
          dir = fn_Dir fn;
          npath = ''FIL_PATH='' @ dir
      in case envForDaemon_loop ''FIL_PATH'' npath envs 0 of
           Some r \<Rightarrow> r
         | None \<Rightarrow> envs @ [npath, ''FIL_API='' @ fn_ApiPort fn])"

subsection \<open>Liveness prober\<close>

text \<open>
  \<^verbatim>\<open>getPID\<close> and \<^verbatim>\<open>isAlive\<close> (\<^verbatim>\<open>localnode.go\<close>, lines 219 to 246). Where
  \<^verbatim>\<open>getPID\<close> returns an error its callers do not look at the number.
\<close>

definition getPID :: "platform \<Rightarrow> string \<Rightarrow> world \<Rightarrow> int res" where
  "getPID pf dir w =
     (case ReadFile pf (Join dir ''daemon.pid'') w of
        Inl err \<Rightarrow> Err err
      | Inr b \<Rightarrow>
          (case Atoi pf b of
             None \<Rightarrow> Err (NumError b)
           | Some pid \<Rightarrow> Ok pid))"

definition isAlive :: "platform \<Rightarrow> string \<Rightarrow> world \<Rightarrow> bool res \<times> world" where
  "isAlive pf dir w =
     (case getPID pf dir w of
        Err err \<Rightarrow> if IsNotExist err then (Ok False, w) else (Err err, w)
      | Panic p \<Rightarrow> (Panic p, w)
      | Ok pid \<Rightarrow>
          (case FindProcess_err pf pid of
             Some err \<Rightarrow> (Ok False, w)
           | None \<Rightarrow>
               (case Signal pf pid Signal0 w of
                  (None, w1) \<Rightarrow> (Ok True, w1)
                | (Some err, w1) \<Rightarrow> (Ok False, w1))))"

subsection \<open>Process launcher\<close>

text \<open>
  \<^verbatim>\<open>startProcess\<close> (\<^verbatim>\<open>localnode.go\<close>, lines 174 to 217) and
  \<^verbatim>\<open>LocalNode.Start\<close> (lines 147 to 172). A method with a pointer receiver returns
  the node next to its result.
\<close>

definition startProcess :: "platform \<Rightarrow> string \<Rightarrow> string \<Rightarrow> string list \<Rightarrow> string
    \<Rightarrow> string list \<Rightarrow> world \<Rightarrow> unit res \<times> world" where
  "startProcess pf bin dcmd args dir env w =
     (case isAlive pf dir w of
        (Err err, w1) \<Rightarrow> (Err err, w1)
      | (Panic p, w1) \<Rightarrow> (Panic p, w1)
      | (Ok alive, w1) \<Rightarrow>
          if alive then (Err ErrAlreadyRunning, w1)
          else
            (let dargs = [dcmd] @ args;
                 c = setupOpt pf ((Command bin dargs)\<lparr>cmd_Dir := dir, cmd_Env := env\<rparr>)
             in case Create pf (Join dir ''daemon.stdout'') w1 of
                  (Some err, w2) \<Rightarrow> (Err err, w2)
                | (None, w2) \<Rightarrow>
                    (case Create pf (Join dir ''daemon.stderr'') w2 of
                       (Some err, w3) \<Rightarrow> (Err err, w3)
                     | (None, w3) \<Rightarrow>
                         (case Start pf
                                 (c\<lparr>cmd_Stdout := Some (Join dir ''daemon.stdout''),
                                    cmd_Stderr := Some (Join dir ''daemon.stderr'')\<rparr>) w3 of
                            (Inl err, w4) \<Rightarrow> (Err err, w4)
                          | (Inr pid, w4) \<Rightarrow>
                              (case WriteFile pf (Join dir ''daemon.pid'') (Sprint pid) w4 of
                                 (Some err, w5) \<Rightarrow> (Err err, w5)
                               | (None, w5) \<Rightarrow> (Ok (), w5))))))"

definition LocalNode_Start :: "platform \<Rightarrow> string list \<Rightarrow> local_node \<Rightarrow> world
    \<Rightarrow> unit res \<times> local_node \<times> world" where
  "LocalNode_Start pf args n w =
     (let env = LocalNode_envForDaemon pf n
      in case startProcess pf ''ipfs'' ''daemon'' args (ln_Dir n) env w of
           (Err err, w1) \<Rightarrow> (Err err, n, w1)
         | (Panic p, w1) \<Rightarrow> (Panic p, n, w1)
         | (Ok u, w1) \<Rightarrow>
             (case serial_Load pf w1 (Join (ln_Dir n) ''config'') of
                Inl err \<Rightarrow> (Err err, n, w1)
              | Inr cfg \<Rightarrow>
                  (let n1 = n\<lparr>ln_PeerID := Identity_PeerID cfg\<rparr>
                   in case waitOnAPI pf (Local n1) w1 of
                        (Some err, w2) \<Rightarrow> (Err err, n1, w2)
                      | (None, w2) \<Rightarrow> (Ok (), n1, w2))))"

subsection \<open>Running a command\<close>

text \<open>
  \<^verbatim>\<open>runCmd\<close> (\<^verbatim>\<open>localnode.go\<close>, lines 94 to 108) and the two \<^verbatim>\<open>RunCmd\<close>
  methods; \<^verbatim>\<open>args[0]\<close> panics on an empty argument list.
\<close>

definition runCmd :: "platform \<Rightarrow> string list \<Rightarrow> string list \<Rightarrow> world \<Rightarrow> string res \<times> world" where
  "runCmd pf args env w =
     (case args of
        [] \<Rightarrow> (Panic ErrIndexOutOfRange, w)
      | a0 # rest \<Rightarrow>
          (case Run pf args env w of
             ((Some err, outbuf, errbuf), w1) \<Rightarrow> (Err (ErrCmd err outbuf errbuf), w1)
           | ((None, outbuf, errbuf), w1) \<Rightarrow> (Ok outbuf, w1)))"

definition LocalNode_RunCmd :: "platform \<Rightarrow> local_node \<Rightarrow> string list \<Rightarrow> world
    \<Rightarrow> string res \<times> world" where
  "LocalNode_RunCmd pf n args w = runCmd pf args (LocalNode_envForDaemon pf n) w"

definition FilecoinNode_RunCmd :: "platform \<Rightarrow> filecoin_node \<Rightarrow> string list \<Rightarrow> world
    \<Rightarrow> string res \<times> world" where
  "FilecoinNode_RunCmd pf fn args w = runCmd pf args (FilecoinNode_envForDaemon pf fn) w"

subsection \<open>Readiness waiter\<close>

text \<open>
  \<^verbatim>\<open>FilecoinNode.Start\<close> (\<^verbatim>\<open>localfilecoin.go\<close>, lines 40 to 66). Its loop
  \<^verbatim>\<open>for i := 0; i < 10; i++\<close> is \<open>Start_loop\<close>, with \<open>k\<close> the number of rounds
  left (\<open>10 - i\<close>).
\<close>

fun Start_loop :: "platform \<Rightarrow> nat \<Rightarrow> filecoin_node \<Rightarrow> world
    \<Rightarrow> unit res \<times> filecoin_node \<times> world" where
  "Start_loop pf 0 fn w = (Ok (), fn, w)"
| "Start_loop pf (Suc k) fn w =
     (case FilecoinNode_RunCmd pf fn [''go-filecoin'', ''id'', ''--format=<id>''] w of
        (Ok pid, w1) \<Rightarrow> (Ok (), fn\<lparr>fn_PeerID := TrimSpace pf pid\<rparr>, w1)
      | (Err err, w1) \<Rightarrow> Start_loop pf k fn (Sleep 100 w1)
      | (Panic p, w1) \<Rightarrow> (Panic p, fn, w1))"

definition FilecoinNode_Start :: "platform \<Rightarrow> string list \<Rightarrow> filecoin_node \<Rightarrow> world
    \<Rightarrow> unit res \<times> filecoin_node \<times> world" where
  "FilecoinNode_Start pf args fn w =
     (let env = FilecoinNode_envForDaemon pf fn;
          args1 = [''--cmdapiaddr='' @ fn_ApiPort fn, ''--swarmlisten=/ip4/127.0.0.1/tcp/0''] @ args
      in case startProcess pf ''go-filecoin'' ''daemon'' args1 (fn_Dir fn) env w of
           (Err err, w1) \<Rightarrow> (Err err, fn, w1)
         | (Panic p, w1) \<Rightarrow> (Panic p, fn, w1)
         | (Ok u, w1) \<Rightarrow> Start_loop pf 10 fn (Sleep 100 w1))"

subsection \<open>Shell\<close>

text \<open>What \<^verbatim>\<open>syscall.Exec(argv0, argv, envv)\<close> is called with.\<close>

datatype exec_call = Exec string "string list" "string list"

text \<open>
  The loop \<^verbatim>\<open>for i, n := range nodes\<close> of both \<^verbatim>\<open>Shell\<close> methods
  (\<^verbatim>\<open>localnode.go\<close>, lines 59 to 83; \<^verbatim>\<open>localfilecoin.go\<close>, lines 114 to 138):
  \<open>i\<close> is the index of the first node of the list, \<open>nenvs\<close> the variables
  collected so far.
\<close>

fun Shell_loop :: "nat \<Rightarrow> testbed_node list \<Rightarrow> string list \<Rightarrow> error + string list" where
  "Shell_loop i [] nenvs = Inr nenvs"
| "Shell_loop i (n # nodes) nenvs =
     (let peerid = GetPeerID n
      in if peerid = [] then Inl ErrCheckPeerID
         else Shell_loop (Suc i) nodes (nenvs @ [''NODE'' @ digits i @ ''='' @ peerid]))"

text \<open>
  \<open>Shell\<close> returns an error, or hands the process over to \<^verbatim>\<open>syscall.Exec\<close>: the
  result \<open>Ok\<close> carries the call.
\<close>

definition LocalNode_Shell :: "platform \<Rightarrow> local_node \<Rightarrow> world \<Rightarrow> exec_call res" where
  "LocalNode_Shell pf n w =
     (let shell = Getenv pf ''SHELL''
      in if shell = [] then Err ErrNoShell
         else
           (let nenvs = [''IPFS_PATH='' @ ln_Dir n]
            in case LoadNodes pf w of
                 Inl err \<Rightarrow> Err err
               | Inr nodes \<Rightarrow>
                   (case Shell_loop 0 nodes nenvs of
                      Inl err \<Rightarrow> Err err
                    | Inr nenvs1 \<Rightarrow> Ok (Exec shell [shell] (Environ pf @ nenvs1)))))"

definition FilecoinNode_Shell :: "platform \<Rightarrow> filecoin_node \<Rightarrow> world \<Rightarrow> exec_call res" where
  "FilecoinNode_Shell pf fn w =
     (let shell = Getenv pf ''SHELL''
      in if shell = [] then Err ErrNoShell
         else
           (let nenvs = [''FIL_PATH='' @ fn_Dir fn]
            in case LoadNodes pf w of
                 Inl err \<Rightarrow> Err err
               | Inr nodes \<Rightarrow>
                   (case Shell_loop 0 nodes nenvs of
                      Inl err \<Rightarrow> Err err
                    | Inr nenvs1 \<Rightarrow> Ok (Exec shell [shell] (Environ pf @ nenvs1)))))"

subsection \<open>Shutdown escalator\<close>

text \<open>
  The loop of \<^verbatim>\<open>waitProcess\<close> (\<^verbatim>\<open>localnode.go\<close>, lines 316 to 325), with
  \<open>k\<close> the number of rounds left (\<^verbatim>\<open>ms / 10 - i\<close>): nil as soon as the probe
  fails, the time-out error after the last round.
\<close>

fun waitProcess_loop :: "platform \<Rightarrow> int \<Rightarrow> nat \<Rightarrow> world \<Rightarrow> error option \<times> world" where
  "waitProcess_loop pf pid 0 w = (Some ErrTimedOut, w)"
| "waitProcess_loop pf pid (Suc k) w =
     (case Signal pf pid Signal0 w of
        (Some err, w1) \<Rightarrow> (None, w1)
      | (None, w1) \<Rightarrow> waitProcess_loop pf pid k (Sleep 10 w1))"

definition waitProcess :: "platform \<Rightarrow> int \<Rightarrow> nat \<Rightarrow> world \<Rightarrow> error option \<times> world" where
  "waitProcess pf pid ms w = waitProcess_loop pf pid (ms div 10) w"

text \<open>
  The last loop of \<^verbatim>\<open>killPid\<close>, \<^verbatim>\<open>for { ... }\<close> with no bound: it returns the world
  in which the probe failed, and \<open>None\<close> stands for a loop that never ends.
\<close>

partial_function (option) killPid_poll :: "platform \<Rightarrow> int \<Rightarrow> world \<Rightarrow> world option" where
  "killPid_poll pf pid w =
     (case Signal pf pid Signal0 w of
        (Some err, w1) \<Rightarrow> Some w1
      | (None, w1) \<Rightarrow> killPid_poll pf pid (Sleep 10 w1))"

text \<open>
  The body of \<^verbatim>\<open>killPid\<close> (\<^verbatim>\<open>localnode.go\<close>, lines 257 to 314) after the
  \<^verbatim>\<open>defer\<close> statement.
\<close>

definition killPid_body :: "platform \<Rightarrow> int \<Rightarrow> string \<Rightarrow> world \<Rightarrow> (unit res \<times> world) option" where
  "killPid_body pf pid dir w =
     (case Signal pf pid SIGINT w of
        (Some err, w1) \<Rightarrow> Some (Err (ErrKillingDaemon dir err), w1)
      | (None, w1) \<Rightarrow>
     (case waitProcess pf pid 1000 w1 of
        (None, w2) \<Rightarrow> Some (Ok (), w2)
      | (Some timeout, w2) \<Rightarrow>
     (case Signal pf pid SIGINT w2 of
        (Some err, w3) \<Rightarrow> Some (Err (ErrKillingDaemon dir err), w3)
      | (None, w3) \<Rightarrow>
     (case waitProcess pf pid 1000 w3 of
        (None, w4) \<Rightarrow> Some (Ok (), w4)
      | (Some timeout, w4) \<Rightarrow>
     (case Signal pf pid SIGQUIT w4 of
        (Some err, w5) \<Rightarrow> Some (Err (ErrKillingDaemon dir err), w5)
      | (None, w5) \<Rightarrow>
     (case waitProcess pf pid 5000 w5 of
        (None, w6) \<Rightarrow> Some (Ok (), w6)
      | (Some timeout, w6) \<Rightarrow>
     (case Signal pf pid SIGKILL w6 of
        (Some err, w7) \<Rightarrow> Some (Err (ErrKillingDaemon dir err), w7)
      | (None, w7) \<Rightarrow>
     (case killPid_poll pf pid w7 of
        None \<Rightarrow> None
      | Some w8 \<Rightarrow> Some (Ok (), w8)))))))))"

text \<open>
  The deferred function of \<^verbatim>\<open>killPid\<close>: it removes the PID file and panics when the
  removal fails for another reason than a file that is not there.
\<close>

definition killPid_deferred :: "platform \<Rightarrow> string \<Rightarrow> world \<Rightarrow> error option \<times> world" where
  "killPid_deferred pf dir w =
     (case Remove pf (Join dir ''daemon.pid'') w of
        (None, w1) \<Rightarrow> (None, w1)
      | (Some err, w1) \<Rightarrow>
          if \<not> IsNotExist err then (Some (ErrRemovingPidFile dir err), w1)
          else (None, w1))"

text \<open>
  \<^verbatim>\<open>killPid\<close>: the deferred function runs on every return of the body, after the
  result is set; its panic replaces the result.
\<close>

definition killPid :: "platform \<Rightarrow> int \<Rightarrow> string \<Rightarrow> world \<Rightarrow> (unit res \<times> world) option" where
  "killPid pf pid dir w =
     (case FindProcess_err pf pid of
        Some err \<Rightarrow> Some (Err (ErrKillingDaemon dir err), w)
      | None \<Rightarrow>
          (case killPid_body pf pid dir w of
             None \<Rightarrow> None
           | Some (r, w1) \<Rightarrow>
               (case killPid_deferred pf dir w1 of
                  (Some p, w2) \<Rightarrow> Some (Panic p, w2)
                | (None, w2) \<Rightarrow> Some (r, w2))))"

text \<open>
  The two \<^verbatim>\<open>Kill\<close> methods (\<^verbatim>\<open>localnode.go\<close>, lines 248 to 255;
  \<^verbatim>\<open>localfilecoin.go\<close>, lines 96 to 103).
\<close>

definition LocalNode_Kill :: "platform \<Rightarrow> local_node \<Rightarrow> world \<Rightarrow> (unit res \<times> world) option" where
  "LocalNode_Kill pf n w =
     (case getPID pf (ln_Dir n) w of
        Err err \<Rightarrow> Some (Err (ErrKillingDaemon (ln_Dir n) err), w)
      | Panic p \<Rightarrow> Some (Panic p, w)
      | Ok pid \<Rightarrow> killPid pf pid (ln_Dir n) w)"

definition FilecoinNode_Kill :: "platform \<Rightarrow> filecoin_node \<Rightarrow> world \<Rightarrow> (unit res \<times> world) option" where
  "FilecoinNode_Kill pf fn w =
     (case getPID pf (fn_Dir fn) w of
        Err err \<Rightarrow> Some (Err err, w)
      | Panic p \<Rightarrow> Some (Panic p, w)
      | Ok pid \<Rightarrow> killPid pf pid (fn_Dir fn) w)"

section \<open>Vocabulary of the statements\<close>

subsection \<open>Environments\<close>

text \<open>
  The entries of an environment that the builders' test \<^verbatim>\<open>p[0] == name\<close> takes for
  the variable \<open>name\<close>.
\<close>

definition occurrences :: "string \<Rightarrow> string list \<Rightarrow> string list" where
  "occurrences name envs = filter (\<lambda>e. Split e CHR ''='' ! 0 = name) envs"

subsection \<open>The log of the readiness waiter\<close>

text \<open>
  The log of identity queries that failed, each followed by the sleep of 100 ms that
  \<^verbatim>\<open>FilecoinNode.Start\<close> makes before the next attempt.
\<close>

definition failed_queries :: "string list \<Rightarrow> string list \<Rightarrow> (error \<times> string \<times> string) list
    \<Rightarrow> event list" where
  "failed_queries q env fails =
     concat (map (\<lambda>(e, outbuf, errbuf). [EvRun q env (Some e, outbuf, errbuf), EvSleep 100]) fails)"

subsection \<open>The log of a kill\<close>

text \<open>
  \<open>polls pid j\<close> is the log of \<open>j\<close> liveness probes that found the process alive,
  each followed by the sleep of 10 ms; \<open>polled pid j w\<close> is the world after them, and
  \<open>gone_at pid j e w\<close> the world in which the next probe failed with the error \<open>e\<close>.
\<close>

definition polls :: "int \<Rightarrow> nat \<Rightarrow> event list" where
  "polls pid j = concat (replicate j [EvSignal pid Signal0 None, EvSleep 10])"

definition polled :: "int \<Rightarrow> nat \<Rightarrow> world \<Rightarrow> world" where
  "polled pid j w = w\<lparr>trace := trace w @ polls pid j\<rparr>"

definition gone_at :: "int \<Rightarrow> nat \<Rightarrow> error \<Rightarrow> world \<Rightarrow> world" where
  "gone_at pid j e w = w\<lparr>trace := trace w @ polls pid j @ [EvSignal pid Signal0 (Some e)]\<rparr>"

text \<open>
  The three bounded stages of \<^verbatim>\<open>killPid\<close>, each a signal and the wait after it in
  milliseconds; the signal of stage \<open>n\<close>, the unconditional kill being stage 3; and the
  log of stages in which the signal was delivered and every probe of the wait,
  \<^verbatim>\<open>ms / 10\<close> of them, found the process alive.
\<close>

definition timed_out :: "int \<Rightarrow> (signal \<times> nat) list \<Rightarrow> event list" where
  "timed_out pid stages =
     concat (map (\<lambda>(s, ms). EvSignal pid s None # polls pid (ms div 10)) stages)"

definition kill_stages :: "(signal \<times> nat) list" where
  "kill_stages = [(SIGINT, 1000), (SIGINT, 1000), (SIGQUIT, 5000)]"

definition kill_signal :: "nat \<Rightarrow> signal" where
  "kill_signal n = [SIGINT, SIGINT, SIGQUIT, SIGKILL] ! n"

text \<open>
  The worlds of a kill. \<open>escalated pid n w\<close> is the world after the first \<open>n\<close>
  stages timed out, and \<open>signalled pid n r w\<close> the world after the signal of stage
  \<open>n\<close> was sent next and got the answer \<open>r\<close>. \<open>stage_polls n\<close> is the number of
  probes in the wait of stage \<open>n\<close>: 100, 100 and 500. \<open>alive_for pf pid k w\<close> says
  that \<open>k\<close> probes in a row, from the world \<open>w\<close> on, find the process alive, and
  \<open>stages_timed_out pf pid n w\<close> that the platform lets the first \<open>n\<close> stages time
  out: the signal of each is delivered and every probe of its wait finds the process
  alive.
\<close>

definition escalated :: "int \<Rightarrow> nat \<Rightarrow> world \<Rightarrow> world" where
  "escalated pid n w = w\<lparr>trace := trace w @ timed_out pid (take n kill_stages)\<rparr>"

definition signalled :: "int \<Rightarrow> nat \<Rightarrow> error option \<Rightarrow> world \<Rightarrow> world" where
  "signalled pid n r w =
     w\<lparr>trace := trace w @ timed_out pid (take n kill_stages) @ [EvSignal pid (kill_signal n) r]\<rparr>"

definition stage_polls :: "nat \<Rightarrow> nat" where
  "stage_polls n = snd (kill_stages ! n) div 10"

definition alive_for :: "platform \<Rightarrow> int \<Rightarrow> nat \<Rightarrow> world \<Rightarrow> bool" where
  "alive_for pf pid k w = (\<forall>i\<in>{..<k}. Signal_err pf (polled pid i w) pid Signal0 = None)"

definition stages_timed_out :: "platform \<Rightarrow> int \<Rightarrow> nat \<Rightarrow> world \<Rightarrow> bool" where
  "stages_timed_out pf pid n w =
     (\<forall>i\<in>{..<n}. Signal_err pf (escalated pid i w) pid (kill_signal i) = None \<and>
                  alive_for pf pid (stage_polls i) (signalled pid i None w))"

text \<open>
  The shutdown escalator as section 4.4 of the specification words it, a state machine
  over a list of stages: send the signal of the stage, fail when it cannot be delivered,
  poll for the time of the stage, succeed when the process is gone and move to the next
  stage on time-out; after the last stage send the kill signal and poll without a
  bound. \<open>killPid_body_escalation\<close> below compares it with the code.
\<close>

fun escalation_spec :: "platform \<Rightarrow> int \<Rightarrow> string \<Rightarrow> (signal \<times> nat) list \<Rightarrow> world
    \<Rightarrow> (unit res \<times> world) option" where
  "escalation_spec pf pid dir [] w =
     (case Signal pf pid SIGKILL w of
        (Some err, w1) \<Rightarrow> Some (Err (ErrKillingDaemon dir err), w1)
      | (None, w1) \<Rightarrow>
          (case killPid_poll pf pid w1 of
             None \<Rightarrow> None
           | Some w2 \<Rightarrow> Some (Ok (), w2)))"
| "escalation_spec pf pid dir ((s, ms) # stages) w =
     (case Signal pf pid s w of
        (Some err, w1) \<Rightarrow> Some (Err (ErrKillingDaemon dir err), w1)
      | (None, w1) \<Rightarrow>
          (case waitProcess pf pid ms w1 of
             (None, w2) \<Rightarrow> Some (Ok (), w2)
           | (Some timeout, w2) \<Rightarrow> escalation_spec pf pid dir stages w2))"

text \<open>The signal of stage \<open>n\<close> of a list of stages that ends with the kill.\<close>

definition stage_signal :: "(signal \<times> nat) list \<Rightarrow> nat \<Rightarrow> signal" where
  "stage_signal stages n = fst ((stages @ [(SIGKILL, 0)]) ! n)"

section \<open>Concrete platforms and worlds\<close>

text \<open>
  One platform and one world on which the functions above can be run: a decimal
  \<open>Atoi\<close>, a \<open>TrimSpace\<close> for blanks and line ends, a process table in which
  every signal is delivered, a file system without failures, a daemon that starts as
  process 4242 and answers the identity query. The examples below change one field at
  a time.
\<close>

fun example_digits :: "string \<Rightarrow> nat \<Rightarrow> nat option" where
  "example_digits [] acc = Some acc"
| "example_digits (c # cs) acc =
     (if c \<in> set ''0123456789'' then example_digits cs (10 * acc + (of_char c - 48))
      else None)"

definition example_Atoi :: "string \<Rightarrow> int option" where
  "example_Atoi s =
     (case s of
        [] \<Rightarrow> None
      | c # cs \<Rightarrow>
          if c = CHR ''-'' then
            (if cs = [] then None else map_option (\<lambda>n. - int n) (example_digits cs 0))
          else if c = CHR ''+'' then
            (if cs = [] then None else map_option int (example_digits cs 0))
          else map_option int (example_digits s 0))"

definition example_TrimSpace :: "string \<Rightarrow> string" where
  "example_TrimSpace s =
     (let blank = (\<lambda>c. c \<in> set [CHR '' '', CHR 0x0A, CHR 0x0D, CHR 0x09])
      in rev (dropWhile blank (rev (dropWhile blank s))))"

definition example_platform :: platform where
  "example_platform =
     \<lparr>Environ = [''HOME=/root'', ''IPFS_PATH=/old'', ''FIL_API=1234''],
      Getenv = (\<lambda>k. if k = ''SHELL'' then ''/bin/sh'' else []),
      Atoi = example_Atoi,
      TrimSpace = example_TrimSpace,
      FindProcess_err = (\<lambda>pid. None),
      Signal_err = (\<lambda>w pid s. None),
      io_err = (\<lambda>w op. None),
      Start_res = (\<lambda>w c. Inr 4242),
      Run_res = (\<lambda>w args env. (None, ''QmNode'' @ [CHR 0x0A], [])),
      serial_Load = (\<lambda>w p. Inr \<lparr>Identity_PeerID = ''QmLocal''\<rparr>),
      setupOpt = (\<lambda>c. c\<lparr>cmd_SysProcAttr := Some ''Setsid''\<rparr>),
      waitOnAPI = (\<lambda>n w. (None, w)),
      LoadNodes = (\<lambda>w. Inr [])\<rparr>"

definition example_world :: world where
  "example_world = \<lparr>files = Map.empty, trace = []\<rparr>"

definition example_local :: local_node where
  "example_local = \<lparr>ln_Dir = ''/nodes/0'', ln_PeerID = []\<rparr>"

definition example_filecoin :: filecoin_node where
  "example_filecoin = \<lparr>fn_Dir = ''/nodes/1'', fn_PeerID = [], fn_ApiPort = '':3453''\<rparr>"

text \<open>
  Two environments that name the data directory twice: in the first the first entry is
  the bare name, without an equals sign; in the second both entries carry a value.
\<close>

definition twice_platform :: platform where
  "twice_platform = example_platform\<lparr>Environ := [''IPFS_PATH'', ''IPFS_PATH=/old'']\<rparr>"

definition duplicate_platform :: platform where
  "duplicate_platform =
     example_platform\<lparr>Environ := [''IPFS_PATH=/old'', ''HOME=/root'', ''IPFS_PATH=/older'']\<rparr>"

text \<open>An environment that already names the Filecoin data directory.\<close>

definition fil_platform :: platform where
  "fil_platform = example_platform\<lparr>Environ := [''FIL_PATH=/old'', ''FIL_API=1234'']\<rparr>"

text \<open>
  Worlds for the liveness prober: a node directory whose PID file names process 4242,
  and one whose PID file is not a number.
\<close>

definition running_world :: world where
  "running_world = \<lparr>files = [Join ''/nodes/0'' ''daemon.pid'' \<mapsto> ''4242''], trace = []\<rparr>"

definition corrupt_world :: world where
  "corrupt_world = \<lparr>files = [Join ''/nodes/0'' ''daemon.pid'' \<mapsto> ''42x''], trace = []\<rparr>"

text \<open>
  A platform on which every signal fails with \<^verbatim>\<open>EPERM\<close>: the processes exist and
  belong to another user.
\<close>

definition eperm_platform :: platform where
  "eperm_platform = example_platform\<lparr>Signal_err := (\<lambda>w pid s. Some (SyscallError EPERM))\<rparr>"

text \<open>
  A platform on which no file can be read, and one on which the node directories are
  not directories, so that every file operation under them fails with \<^verbatim>\<open>ENOTDIR\<close>.
\<close>

definition unreadable_platform :: platform where
  "unreadable_platform = example_platform\<lparr>io_err := (\<lambda>w op. Some EACCES)\<rparr>"

definition notdir_platform :: platform where
  "notdir_platform = example_platform\<lparr>io_err := (\<lambda>w op. Some ENOTDIR)\<rparr>"

text \<open>A node directory that holds the output of an earlier run.\<close>

definition log_world :: world where
  "log_world = \<lparr>files = [Join ''/nodes/0'' ''daemon.stdout'' \<mapsto> ''earlier output''], trace = []\<rparr>"

text \<open>A platform on which the node's config file cannot be loaded.\<close>

definition noconfig_platform :: platform where
  "noconfig_platform = example_platform\<lparr>serial_Load := (\<lambda>w p. Inl (ErrExternal ''no config''))\<rparr>"

text \<open>A platform on which the identity query never succeeds.\<close>

definition silent_platform :: platform where
  "silent_platform = example_platform
     \<lparr>Run_res := (\<lambda>w args env. (Some (ErrExternal ''exit status 1''), [], ''api not running''))\<rparr>"

text \<open>
  Registries for the shell: one whose two nodes both have a peer identity, and one
  whose second node has none yet.
\<close>

definition cluster_platform :: platform where
  "cluster_platform = example_platform
     \<lparr>LoadNodes := (\<lambda>w. Inr [Local (example_local\<lparr>ln_PeerID := ''QmA''\<rparr>),
                              Filecoin (example_filecoin\<lparr>fn_PeerID := ''QmB''\<rparr>)])\<rparr>"

definition unready_platform :: platform where
  "unready_platform = example_platform
     \<lparr>LoadNodes := (\<lambda>w. Inr [Local (example_local\<lparr>ln_PeerID := ''QmA''\<rparr>),
                              Filecoin example_filecoin])\<rparr>"

text \<open>
  Three processes: one that exits soon after the first signal (the probe fails once
  the log has five entries), one that ignores every signal but the kill, and one that
  is gone before the first signal is sent.
\<close>

definition cooperative_platform :: platform where
  "cooperative_platform = example_platform
     \<lparr>Signal_err := (\<lambda>w pid s.
         if s = Signal0 \<and> 5 \<le> length (trace w) then Some (SyscallError ESRCH) else None)\<rparr>"


definition gone_platform :: platform where
  "gone_platform = example_platform\<lparr>Signal_err := (\<lambda>w pid s. Some (SyscallError ESRCH))\<rparr>"

text \<open>
  The cooperative process in a node directory from which no file can be removed.
\<close>

definition undeletable_platform :: platform where
  "undeletable_platform = cooperative_platform
     \<lparr>io_err := (\<lambda>w op. case op of OpRemove p \<Rightarrow> Some EACCES | _ \<Rightarrow> None)\<rparr>"

text \<open>A platform on which \<^verbatim>\<open>os.FindProcess\<close> fails.\<close>

definition nohandle_platform :: platform where
  "nohandle_platform = example_platform
     \<lparr>FindProcess_err := (\<lambda>pid. Some (ErrExternal ''OpenProcess: access denied''))\<rparr>"

section \<open>Properties\<close>

subsection \<open>Splitting at the equals sign\<close>

lemma Split_not_Nil: "Split s c \<noteq> []"
  by (induction s) (auto split: list.splits)

lemma Split_hd: "Split s c ! 0 = takeWhile (\<lambda>x. x \<noteq> c) s"
  by (induction s) (auto split: list.splits simp: Split_not_Nil)

lemma Split_hd_assign: "c \<notin> set name \<Longrightarrow> Split (name @ c # v) c ! 0 = name"
  by (auto simp: Split_hd takeWhile_tail)

lemma npath_name: "Split (''IPFS_PATH='' @ dir) CHR ''='' ! 0 = ''IPFS_PATH''"
  using Split_hd_assign[of "CHR ''=''" "''IPFS_PATH''" dir] by simp

lemma fil_npath_name: "Split (''FIL_PATH='' @ dir) CHR ''='' ! 0 = ''FIL_PATH''"
  using Split_hd_assign[of "CHR ''=''" "''FIL_PATH''" dir] by simp

subsection \<open>The loop of the environment builders\<close>

declare envForDaemon_loop.simps [simp del]

lemma envForDaemon_loop_None:
  "envForDaemon_loop name npath envs i = None \<longleftrightarrow>
     (\<forall>j. i \<le> j \<and> j < length envs \<longrightarrow> Split (envs ! j) CHR ''='' ! 0 \<noteq> name)"
proof (induction name npath envs i rule: envForDaemon_loop.induct)
  case (1 name npath envs i)
  show ?case
  proof (cases "i < length envs")
    case False
    then show ?thesis by (subst envForDaemon_loop.simps) auto
  next
    case True
    show ?thesis
    proof (cases "Split (envs ! i) CHR ''='' ! 0 = name")
      case hit: True
      with True show ?thesis
        by (subst envForDaemon_loop.simps) auto
    next
      case miss: False
      have "envForDaemon_loop name npath envs i = envForDaemon_loop name npath envs (Suc i)"
        using True miss by (subst envForDaemon_loop.simps) simp
      moreover have "(\<forall>j. Suc i \<le> j \<and> j < length envs \<longrightarrow> Split (envs ! j) CHR ''='' ! 0 \<noteq> name)
        \<longleftrightarrow> (\<forall>j. i \<le> j \<and> j < length envs \<longrightarrow> Split (envs ! j) CHR ''='' ! 0 \<noteq> name)"
        using miss by (metis Suc_leI le_neq_implies_less Suc_leD)
      ultimately show ?thesis using "1.IH"[OF True refl miss] by simp
    qed
  qed
qed

lemma envForDaemon_loop_Some:
  "envForDaemon_loop name npath envs i = Some r \<Longrightarrow>
     \<exists>j. i \<le> j \<and> j < length envs \<and> Split (envs ! j) CHR ''='' ! 0 = name \<and>
         (\<forall>k. i \<le> k \<and> k < j \<longrightarrow> Split (envs ! k) CHR ''='' ! 0 \<noteq> name) \<and>
         r = envs[j := npath]"
proof (induction name npath envs i rule: envForDaemon_loop.induct)
  case (1 name npath envs i)
  have len: "i < length envs"
    using "1.prems" by (subst (asm) envForDaemon_loop.simps) (simp split: if_splits)
  show ?case
  proof (cases "Split (envs ! i) CHR ''='' ! 0 = name")
    case True
    then have "r = envs[i := npath]"
      using "1.prems" len by (subst (asm) envForDaemon_loop.simps) simp
    with True len show ?thesis by auto
  next
    case False
    then have "envForDaemon_loop name npath envs (Suc i) = Some r"
      using "1.prems" len by (subst (asm) envForDaemon_loop.simps) simp
    from "1.IH"[OF len refl False this] obtain j where
      j: "Suc i \<le> j" "j < length envs" "Split (envs ! j) CHR ''='' ! 0 = name"
         "\<forall>k. Suc i \<le> k \<and> k < j \<longrightarrow> Split (envs ! k) CHR ''='' ! 0 \<noteq> name"
         "r = envs[j := npath]"
      by blast
    have "\<forall>k. i \<le> k \<and> k < j \<longrightarrow> Split (envs ! k) CHR ''='' ! 0 \<noteq> name"
      using j(4) False by (metis Suc_leI le_neq_implies_less)
    with j show ?thesis by (metis Suc_leD)
  qed
qed

lemma occurrences_Nil_iff:
  "occurrences name envs = [] \<longleftrightarrow> (\<forall>j<length envs. Split (envs ! j) CHR ''='' ! 0 \<noteq> name)"
  by (simp add: occurrences_def filter_empty_conv all_set_conv_all_nth)

lemma envForDaemon_loop_cases:
  "(case envForDaemon_loop name npath envs 0 of
      None \<Rightarrow> occurrences name envs = []
    | Some r \<Rightarrow> occurrences name envs \<noteq> [] \<and>
        (\<exists>j<length envs. Split (envs ! j) CHR ''='' ! 0 = name \<and>
           (\<forall>k<j. Split (envs ! k) CHR ''='' ! 0 \<noteq> name) \<and> r = envs[j := npath]))"
proof (cases "envForDaemon_loop name npath envs 0")
  case None
  then have "occurrences name envs = []"
    by (simp add: envForDaemon_loop_None occurrences_Nil_iff)
  with None show ?thesis by simp
next
  case (Some r)
  from envForDaemon_loop_Some[OF Some] obtain j where
    j: "j < length envs" "Split (envs ! j) CHR ''='' ! 0 = name"
       "\<forall>k<j. Split (envs ! k) CHR ''='' ! 0 \<noteq> name" "r = envs[j := npath]"
    by auto
  then have "occurrences name envs \<noteq> []"
    by (auto simp: occurrences_Nil_iff)
  with Some j show ?thesis by auto
qed

lemma occurrences_update_other:
  assumes "j < length envs" "Split (envs ! j) CHR ''='' ! 0 \<noteq> name"
    "Split e CHR ''='' ! 0 \<noteq> name"
  shows "occurrences name (envs[j := e]) = occurrences name envs"
proof -
  have "occurrences name (take j envs @ e # drop (Suc j) envs)
      = occurrences name (take j envs @ envs ! j # drop (Suc j) envs)"
    using assms by (simp add: occurrences_def)
  then show ?thesis
    using assms(1) by (simp add: upd_conv_take_nth_drop id_take_nth_drop[symmetric])
qed

lemma occurrences_update_same:
  assumes "j < length envs" "Split (envs ! j) CHR ''='' ! 0 = name"
    "Split e CHR ''='' ! 0 = name" "length (occurrences name envs) \<le> 1"
  shows "occurrences name (envs[j := e]) = [e]"
proof -
  have split: "envs = take j envs @ envs ! j # drop (Suc j) envs"
    using assms(1) by (rule id_take_nth_drop)
  have "length (occurrences name (take j envs @ envs ! j # drop (Suc j) envs)) \<le> 1"
    using assms(4) split by simp
  then have "occurrences name (take j envs) = []" "occurrences name (drop (Suc j) envs) = []"
    using assms(2) by (simp_all add: occurrences_def)
  then have "occurrences name (take j envs @ e # drop (Suc j) envs) = [e]"
    using assms(3) by (simp add: occurrences_def)
  then show ?thesis
    using assms(1) by (simp add: upd_conv_take_nth_drop)
qed

subsection \<open>Environment builder of the IPFS node\<close>

text \<open>
  Claim C5, as the code has it. \<open>LocalNode.envForDaemon\<close> overwrites the first
  entry of the base environment that the test \<^verbatim>\<open>p[0] == "IPFS_PATH"\<close> accepts, in
  place, so the length and every other position stay as they are; when no entry passes
  the test it appends \<^verbatim>\<open>IPFS_PATH=<dir>\<close>. The loop returns at the first match, so
  later entries of that name are kept: the variable appears exactly once, with the new
  value, when the base environment names it at most once.
\<close>

theorem LocalNode_envForDaemon_sets_first:
  "(if occurrences ''IPFS_PATH'' (Environ pf) = []
    then LocalNode_envForDaemon pf n = Environ pf @ [''IPFS_PATH='' @ ln_Dir n]
    else length (LocalNode_envForDaemon pf n) = length (Environ pf) \<and>
         (\<exists>i<length (Environ pf).
            Split (Environ pf ! i) CHR ''='' ! 0 = ''IPFS_PATH'' \<and>
            (\<forall>k<i. Split (Environ pf ! k) CHR ''='' ! 0 \<noteq> ''IPFS_PATH'') \<and>
            LocalNode_envForDaemon pf n = (Environ pf)[i := ''IPFS_PATH='' @ ln_Dir n]))
   \<and> (length (occurrences ''IPFS_PATH'' (Environ pf)) \<le> 1 \<longrightarrow>
        occurrences ''IPFS_PATH'' (LocalNode_envForDaemon pf n) = [''IPFS_PATH='' @ ln_Dir n])"
proof -
  define envs where "envs = Environ pf"
  define npath where "npath = ''IPFS_PATH='' @ ln_Dir n"
  have key: "Split npath CHR ''='' ! 0 = ''IPFS_PATH''"
    unfolding npath_def by (rule npath_name)
  have res: "LocalNode_envForDaemon pf n =
      (case envForDaemon_loop ''IPFS_PATH'' npath envs 0 of Some r \<Rightarrow> r | None \<Rightarrow> envs @ [npath])"
    unfolding LocalNode_envForDaemon_def envs_def npath_def Let_def by simp
  note cases = envForDaemon_loop_cases[where name="''IPFS_PATH''" and npath=npath and envs=envs]
  show ?thesis
  proof (cases "envForDaemon_loop ''IPFS_PATH'' npath envs 0")
    case None
    with cases have none: "occurrences ''IPFS_PATH'' envs = []" by simp
    have r: "LocalNode_envForDaemon pf n = envs @ [npath]"
      using None res by simp
    have "occurrences ''IPFS_PATH'' (envs @ [npath]) = [npath]"
      using none key by (simp add: occurrences_def)
    with r none show ?thesis
      unfolding envs_def npath_def by simp
  next
    case (Some r)
    with cases obtain j where j: "occurrences ''IPFS_PATH'' envs \<noteq> []" "j < length envs"
      "Split (envs ! j) CHR ''='' ! 0 = ''IPFS_PATH''"
      "\<forall>k<j. Split (envs ! k) CHR ''='' ! 0 \<noteq> ''IPFS_PATH''" "r = envs[j := npath]"
      by auto
    have r: "LocalNode_envForDaemon pf n = envs[j := npath]"
      using Some res j(5) by simp
    have once: "length (occurrences ''IPFS_PATH'' envs) \<le> 1 \<longrightarrow>
        occurrences ''IPFS_PATH'' (envs[j := npath]) = [npath]"
      using occurrences_update_same[OF j(2) j(3) key] by blast
    have "\<exists>i<length envs. Split (envs ! i) CHR ''='' ! 0 = ''IPFS_PATH'' \<and>
            (\<forall>k<i. Split (envs ! k) CHR ''='' ! 0 \<noteq> ''IPFS_PATH'') \<and>
            LocalNode_envForDaemon pf n = envs[i := npath]"
      using j r by blast
    with r j(1) once show ?thesis
      unfolding envs_def npath_def by simp
  qed
qed

text \<open>
  The theorem at the example platform, whose environment names \<^verbatim>\<open>IPFS_PATH\<close> once,
  in the second place: the entry is overwritten where it stands. On a platform whose
  environment does not name it, the variable is appended.
\<close>

theorem LocalNode_envForDaemon_sets_first_witness:
  "LocalNode_envForDaemon example_platform example_local =
     [''HOME=/root'', ''IPFS_PATH=/nodes/0'', ''FIL_API=1234''] \<and>
   length (occurrences ''IPFS_PATH'' (Environ example_platform)) = 1 \<and>
   occurrences ''IPFS_PATH'' (LocalNode_envForDaemon example_platform example_local) =
     [''IPFS_PATH=/nodes/0''] \<and>
   LocalNode_envForDaemon fil_platform example_local =
     [''FIL_PATH=/old'', ''FIL_API=1234'', ''IPFS_PATH=/nodes/0'']"
proof -
  have one: "length (occurrences ''IPFS_PATH'' (Environ example_platform)) = 1"
    by (simp add: occurrences_def example_platform_def)
  have none: "occurrences ''IPFS_PATH'' (Environ fil_platform) = []"
    by (simp add: occurrences_def fil_platform_def)
  have "occurrences ''IPFS_PATH'' (LocalNode_envForDaemon example_platform example_local) =
     [''IPFS_PATH='' @ ln_Dir example_local]"
    using LocalNode_envForDaemon_sets_first[of example_platform example_local] one by simp
  moreover have "LocalNode_envForDaemon fil_platform example_local =
     Environ fil_platform @ [''IPFS_PATH='' @ ln_Dir example_local]"
    using LocalNode_envForDaemon_sets_first[of fil_platform example_local] none by simp
  moreover have "LocalNode_envForDaemon example_platform example_local =
     [''HOME=/root'', ''IPFS_PATH=/nodes/0'', ''FIL_API=1234'']"
    by (simp add: LocalNode_envForDaemon_def example_platform_def example_local_def
        envForDaemon_loop.simps)
  ultimately show ?thesis using one
    by (simp add: example_local_def fil_platform_def)
qed

text \<open>
  Claim C5 as it is written does not hold for every base environment: with two entries
  for \<^verbatim>\<open>IPFS_PATH\<close> the first is overwritten and the second, stale one stays, so the
  variable appears twice in the result. This is so whether the first entry is the bare
  name or carries a value.
\<close>

theorem LocalNode_envForDaemon_twice_counterexample:
  "LocalNode_envForDaemon twice_platform example_local =
     [''IPFS_PATH=/nodes/0'', ''IPFS_PATH=/old'']
   \<and> length (occurrences ''IPFS_PATH'' (LocalNode_envForDaemon twice_platform example_local)) = 2
   \<and> LocalNode_envForDaemon duplicate_platform example_local =
     [''IPFS_PATH=/nodes/0'', ''HOME=/root'', ''IPFS_PATH=/older'']
   \<and> length (occurrences ''IPFS_PATH'' (LocalNode_envForDaemon duplicate_platform example_local))
       = 2"
proof -
  have r: "LocalNode_envForDaemon twice_platform example_local =
      [''IPFS_PATH=/nodes/0'', ''IPFS_PATH=/old'']"
    by (simp add: LocalNode_envForDaemon_def twice_platform_def example_platform_def
        example_local_def envForDaemon_loop.simps)
  have d: "LocalNode_envForDaemon duplicate_platform example_local =
      [''IPFS_PATH=/nodes/0'', ''HOME=/root'', ''IPFS_PATH=/older'']"
    by (simp add: LocalNode_envForDaemon_def duplicate_platform_def example_platform_def
        example_local_def envForDaemon_loop.simps)
  show ?thesis unfolding r d by (simp add: occurrences_def)
qed

subsection \<open>Environment builder of the Filecoin node\<close>

text \<open>
  Claim C10. \<open>FilecoinNode.envForDaemon\<close> appends \<^verbatim>\<open>FIL_API=<port>\<close> only on the
  path that also appends \<^verbatim>\<open>FIL_PATH=<dir>\<close>, that is when no entry of the base
  environment is taken for \<^verbatim>\<open>FIL_PATH\<close>. When one is, the result is the base
  environment with that entry overwritten: the same length, and the same \<^verbatim>\<open>FIL_API\<close>
  entries as before, none added.
\<close>

theorem FilecoinNode_envForDaemon_api:
  "(if occurrences ''FIL_PATH'' (Environ pf) = []
    then FilecoinNode_envForDaemon pf fn =
           Environ pf @ [''FIL_PATH='' @ fn_Dir fn, ''FIL_API='' @ fn_ApiPort fn]
    else length (FilecoinNode_envForDaemon pf fn) = length (Environ pf) \<and>
         occurrences ''FIL_API'' (FilecoinNode_envForDaemon pf fn) =
           occurrences ''FIL_API'' (Environ pf) \<and>
         (\<exists>i<length (Environ pf).
            Split (Environ pf ! i) CHR ''='' ! 0 = ''FIL_PATH'' \<and>
            FilecoinNode_envForDaemon pf fn = (Environ pf)[i := ''FIL_PATH='' @ fn_Dir fn]))"
proof -
  define envs where "envs = Environ pf"
  define npath where "npath = ''FIL_PATH='' @ fn_Dir fn"
  define napi where "napi = ''FIL_API='' @ fn_ApiPort fn"
  have key: "Split npath CHR ''='' ! 0 = ''FIL_PATH''"
    unfolding npath_def by (rule fil_npath_name)
  have res: "FilecoinNode_envForDaemon pf fn =
      (case envForDaemon_loop ''FIL_PATH'' npath envs 0 of
         Some r \<Rightarrow> r | None \<Rightarrow> envs @ [npath, napi])"
    unfolding FilecoinNode_envForDaemon_def envs_def npath_def napi_def Let_def by simp
  note cases = envForDaemon_loop_cases[where name="''FIL_PATH''" and npath=npath and envs=envs]
  show ?thesis
  proof (cases "envForDaemon_loop ''FIL_PATH'' npath envs 0")
    case None
    with cases have "occurrences ''FIL_PATH'' envs = []" by simp
    moreover have "FilecoinNode_envForDaemon pf fn = envs @ [npath, napi]"
      using None res by simp
    ultimately show ?thesis
      unfolding envs_def npath_def napi_def by simp
  next
    case (Some r)
    with cases obtain j where j: "occurrences ''FIL_PATH'' envs \<noteq> []" "j < length envs"
      "Split (envs ! j) CHR ''='' ! 0 = ''FIL_PATH''" "r = envs[j := npath]"
      by auto
    have r: "FilecoinNode_envForDaemon pf fn = envs[j := npath]"
      using Some res j(4) by simp
    have "occurrences ''FIL_API'' (envs[j := npath]) = occurrences ''FIL_API'' envs"
      using j(2,3) key by (intro occurrences_update_other) simp_all
    moreover have "\<exists>i<length envs. Split (envs ! i) CHR ''='' ! 0 = ''FIL_PATH'' \<and>
        FilecoinNode_envForDaemon pf fn = envs[i := npath]"
      using j r by blast
    ultimately show ?thesis
      using r j(1) unfolding envs_def npath_def by simp
  qed
qed

text \<open>
  Both branches run: the example platform has no \<^verbatim>\<open>FIL_PATH\<close>, so both variables
  are appended; \<open>fil_platform\<close> has one, so it is overwritten and no \<^verbatim>\<open>FIL_API\<close>
  entry is added.
\<close>

theorem FilecoinNode_envForDaemon_api_witness:
  "FilecoinNode_envForDaemon example_platform example_filecoin =
     [''HOME=/root'', ''IPFS_PATH=/old'', ''FIL_API=1234'', ''FIL_PATH=/nodes/1'', ''FIL_API=:3453'']
   \<and> FilecoinNode_envForDaemon fil_platform example_filecoin =
     [''FIL_PATH=/nodes/1'', ''FIL_API=1234'']"
proof -
  have absent: "occurrences ''FIL_PATH'' (Environ example_platform) = []"
    by (simp add: occurrences_def example_platform_def)
  have present: "occurrences ''FIL_PATH'' (Environ fil_platform) \<noteq> []"
    by (simp add: occurrences_def fil_platform_def)
  have "FilecoinNode_envForDaemon example_platform example_filecoin =
      Environ example_platform @
        [''FIL_PATH='' @ fn_Dir example_filecoin, ''FIL_API='' @ fn_ApiPort example_filecoin]"
    using FilecoinNode_envForDaemon_api[of example_platform example_filecoin] absent by simp
  moreover
  obtain i where i: "i < length (Environ fil_platform)"
      "Split (Environ fil_platform ! i) CHR ''='' ! 0 = ''FIL_PATH''"
      "FilecoinNode_envForDaemon fil_platform example_filecoin =
         (Environ fil_platform)[i := ''FIL_PATH='' @ fn_Dir example_filecoin]"
    using FilecoinNode_envForDaemon_api[of fil_platform example_filecoin] present by auto
  have "i = 0"
    using i(1,2) by (cases i) (auto simp: fil_platform_def less_Suc_eq)
  with i(3) have "FilecoinNode_envForDaemon fil_platform example_filecoin =
     [''FIL_PATH=/nodes/1'', ''FIL_API=1234'']"
    by (simp add: fil_platform_def example_filecoin_def)
  ultimately show ?thesis
    by (simp add: example_platform_def example_filecoin_def)
qed

subsection \<open>Liveness prober\<close>

lemma getPID_cases:
  "getPID pf dir w =
     (case io_err pf w (OpRead (Join dir ''daemon.pid'')) of
        Some e \<Rightarrow> Err (SyscallError e)
      | None \<Rightarrow>
          (case files w (Join dir ''daemon.pid'') of
             None \<Rightarrow> Err ErrNotExist
           | Some b \<Rightarrow> (case Atoi pf b of None \<Rightarrow> Err (NumError b) | Some pid \<Rightarrow> Ok pid)))"
  by (simp add: getPID_def ReadFile_def split: option.splits)

text \<open>
  Claim C3, as the code has it. \<open>isAlive\<close> returns false without an error when the
  PID file is absent and reading it reports just that, the not-exist error. It returns
  the error when the read fails in any other way, whether the file is there or not (an
  absent PID file under a path that is not a directory or cannot be searched gives an
  error, not false), and when the content is not a number. It returns false when no
  process handle is found. Otherwise it sends signal 0 to the parsed process identifier,
  leaves the files as they are, and reports the process alive exactly when the signal is
  delivered without any error: every error of the probe, a permission error included,
  counts as not alive.
\<close>

theorem isAlive_cases:
  "(io_err pf w (OpRead (Join dir ''daemon.pid'')) = None \<and>
    files w (Join dir ''daemon.pid'') = None \<longrightarrow> isAlive pf dir w = (Ok False, w))
   \<and> (\<forall>e. io_err pf w (OpRead (Join dir ''daemon.pid'')) = Some e \<longrightarrow>
        isAlive pf dir w = (Err (SyscallError e), w))
   \<and> (\<forall>b. files w (Join dir ''daemon.pid'') = Some b \<and>
          io_err pf w (OpRead (Join dir ''daemon.pid'')) = None \<and> Atoi pf b = None \<longrightarrow>
        isAlive pf dir w = (Err (NumError b), w))
   \<and> (\<forall>b pid e. files w (Join dir ''daemon.pid'') = Some b \<and>
          io_err pf w (OpRead (Join dir ''daemon.pid'')) = None \<and> Atoi pf b = Some pid \<and>
          FindProcess_err pf pid = Some e \<longrightarrow>
        isAlive pf dir w = (Ok False, w))
   \<and> (\<forall>b pid. files w (Join dir ''daemon.pid'') = Some b \<and>
          io_err pf w (OpRead (Join dir ''daemon.pid'')) = None \<and> Atoi pf b = Some pid \<and>
          FindProcess_err pf pid = None \<longrightarrow>
        isAlive pf dir w =
          (Ok (Signal_err pf w pid Signal0 = None),
           w\<lparr>trace := trace w @ [EvSignal pid Signal0 (Signal_err pf w pid Signal0)]\<rparr>))"
  by (auto simp: isAlive_def getPID_cases IsNotExist_def Signal_def Let_def split: option.splits)

text \<open>
  The cases of the theorem: no PID file; no PID file in a node directory that is not a
  directory, where the read fails with \<^verbatim>\<open>ENOTDIR\<close>; a PID file that cannot be read;
  one that does not parse; a process identifier without a handle; and a process that
  takes the probe.
\<close>

theorem isAlive_cases_witness:
  "isAlive example_platform ''/nodes/0'' example_world = (Ok False, example_world)
   \<and> files example_world (Join ''/nodes/0'' ''daemon.pid'') = None
   \<and> isAlive notdir_platform ''/nodes/0'' example_world =
       (Err (SyscallError ENOTDIR), example_world)
   \<and> isAlive unreadable_platform ''/nodes/0'' running_world =
       (Err (SyscallError EACCES), running_world)
   \<and> isAlive example_platform ''/nodes/0'' corrupt_world = (Err (NumError ''42x''), corrupt_world)
   \<and> isAlive nohandle_platform ''/nodes/0'' running_world = (Ok False, running_world)
   \<and> isAlive example_platform ''/nodes/0'' running_world =
       (Ok True, running_world\<lparr>trace := [EvSignal 4242 Signal0 None]\<rparr>)"
proof -
  have a: "io_err example_platform example_world (OpRead (Join ''/nodes/0'' ''daemon.pid'')) = None \<and>
      files example_world (Join ''/nodes/0'' ''daemon.pid'') = None"
    by (simp add: example_world_def example_platform_def)
  have b: "files corrupt_world (Join ''/nodes/0'' ''daemon.pid'') = Some ''42x'' \<and>
      io_err example_platform corrupt_world (OpRead (Join ''/nodes/0'' ''daemon.pid'')) = None \<and>
      Atoi example_platform ''42x'' = None"
    by (simp add: corrupt_world_def example_platform_def example_Atoi_def)
  have c: "files running_world (Join ''/nodes/0'' ''daemon.pid'') = Some ''4242'' \<and>
      io_err example_platform running_world (OpRead (Join ''/nodes/0'' ''daemon.pid'')) = None \<and>
      Atoi example_platform ''4242'' = Some 4242 \<and> FindProcess_err example_platform 4242 = None"
    by (simp add: running_world_def example_platform_def example_Atoi_def)
  have d: "Signal_err example_platform running_world 4242 Signal0 = None"
    "trace running_world = []"
    by (simp_all add: example_platform_def running_world_def)
  have e: "io_err unreadable_platform running_world (OpRead (Join ''/nodes/0'' ''daemon.pid''))
        = Some EACCES"
    by (simp add: unreadable_platform_def example_platform_def)
  have f: "files running_world (Join ''/nodes/0'' ''daemon.pid'') = Some ''4242'' \<and>
      io_err nohandle_platform running_world (OpRead (Join ''/nodes/0'' ''daemon.pid'')) = None \<and>
      Atoi nohandle_platform ''4242'' = Some 4242 \<and>
      FindProcess_err nohandle_platform 4242 = Some (ErrExternal ''OpenProcess: access denied'')"
    by (simp add: running_world_def nohandle_platform_def example_platform_def example_Atoi_def)
  have g: "io_err notdir_platform example_world (OpRead (Join ''/nodes/0'' ''daemon.pid''))
        = Some ENOTDIR"
    by (simp add: notdir_platform_def example_platform_def)
  from a isAlive_cases[of example_platform example_world "''/nodes/0''"]
  have "isAlive example_platform ''/nodes/0'' example_world = (Ok False, example_world)"
    by blast
  moreover from g isAlive_cases[of notdir_platform example_world "''/nodes/0''"]
  have "isAlive notdir_platform ''/nodes/0'' example_world =
      (Err (SyscallError ENOTDIR), example_world)"
    by blast
  moreover from e isAlive_cases[of unreadable_platform running_world "''/nodes/0''"]
  have "isAlive unreadable_platform ''/nodes/0'' running_world =
      (Err (SyscallError EACCES), running_world)"
    by blast
  moreover from b isAlive_cases[of example_platform corrupt_world "''/nodes/0''"]
  have "isAlive example_platform ''/nodes/0'' corrupt_world = (Err (NumError ''42x''), corrupt_world)"
    by blast
  moreover from f isAlive_cases[of nohandle_platform running_world "''/nodes/0''"]
  have "isAlive nohandle_platform ''/nodes/0'' running_world = (Ok False, running_world)"
    by blast
  moreover from c isAlive_cases[of example_platform running_world "''/nodes/0''"]
  have "isAlive example_platform ''/nodes/0'' running_world =
          (Ok (Signal_err example_platform running_world 4242 Signal0 = None),
           running_world\<lparr>trace := trace running_world @
             [EvSignal 4242 Signal0 (Signal_err example_platform running_world 4242 Signal0)]\<rparr>)"
    by blast
  ultimately show ?thesis using a d by simp
qed

text \<open>
  Claim C3 as it is written fails where the probe is refused for lack of permission:
  the PID file parses, the probe returns \<^verbatim>\<open>EPERM\<close>, and \<open>isAlive\<close> answers false.
\<close>

theorem isAlive_eperm_counterexample:
  "files running_world (Join ''/nodes/0'' ''daemon.pid'') = Some ''4242''
   \<and> Atoi eperm_platform ''4242'' = Some 4242
   \<and> Signal_err eperm_platform running_world 4242 Signal0 = Some (SyscallError EPERM)
   \<and> fst (isAlive eperm_platform ''/nodes/0'' running_world) = Ok False"
  by (simp add: isAlive_def getPID_def ReadFile_def Signal_def IsNotExist_def Let_def
      eperm_platform_def example_platform_def running_world_def example_Atoi_def)

subsection \<open>Starting a node that is alive\<close>

lemma isAlive_True:
  assumes "isAlive pf dir w = (Ok True, w1)"
  shows "\<exists>pid. w1 = w\<lparr>trace := trace w @ [EvSignal pid Signal0 None]\<rparr>"
  using assms
  by (auto simp: isAlive_def Signal_def Let_def split: res.splits option.splits if_splits)

text \<open>
  Claim C4. When the liveness probe of the directory reports a live process,
  \<open>startProcess\<close> returns the already-running error in the world the probe left:
  the files are unchanged, so the PID file still names the original process, and the
  only entry added to the log is the probe with signal 0, so nothing was started. Both
  \<open>Start\<close> methods pass the error on and leave the node as it was.
\<close>

theorem startProcess_alive:
  "isAlive pf dir w = (Ok True, w1) \<longrightarrow>
     startProcess pf bin dcmd args dir env w = (Err ErrAlreadyRunning, w1)
     \<and> files w1 = files w
     \<and> (\<exists>pid. trace w1 = trace w @ [EvSignal pid Signal0 None])
     \<and> (ln_Dir n = dir \<longrightarrow> LocalNode_Start pf args n w = (Err ErrAlreadyRunning, n, w1))
     \<and> (fn_Dir fn = dir \<longrightarrow> FilecoinNode_Start pf args fn w = (Err ErrAlreadyRunning, fn, w1))"
proof
  assume alive: "isAlive pf dir w = (Ok True, w1)"
  have sp: "startProcess pf b d a dir e w = (Err ErrAlreadyRunning, w1)" for b d a e
    using alive by (simp add: startProcess_def)
  from isAlive_True[OF alive] obtain pid where
    w1: "w1 = w\<lparr>trace := trace w @ [EvSignal pid Signal0 None]\<rparr>" ..
  have "ln_Dir n = dir \<longrightarrow> LocalNode_Start pf args n w = (Err ErrAlreadyRunning, n, w1)"
    using sp by (simp add: LocalNode_Start_def Let_def)
  moreover have "fn_Dir fn = dir \<longrightarrow> FilecoinNode_Start pf args fn w = (Err ErrAlreadyRunning, fn, w1)"
    using sp by (simp add: FilecoinNode_Start_def Let_def)
  ultimately show "startProcess pf bin dcmd args dir env w = (Err ErrAlreadyRunning, w1)
     \<and> files w1 = files w
     \<and> (\<exists>pid. trace w1 = trace w @ [EvSignal pid Signal0 None])
     \<and> (ln_Dir n = dir \<longrightarrow> LocalNode_Start pf args n w = (Err ErrAlreadyRunning, n, w1))
     \<and> (fn_Dir fn = dir \<longrightarrow> FilecoinNode_Start pf args fn w = (Err ErrAlreadyRunning, fn, w1))"
    using sp w1 by simp
qed

text \<open>
  The theorem at a directory whose PID file names the live process 4242, for
  \<open>startProcess\<close> and for the \<open>Start\<close> method of both kinds of node.
\<close>

theorem startProcess_alive_witness:
  "isAlive example_platform ''/nodes/0'' running_world =
       (Ok True, running_world\<lparr>trace := [EvSignal 4242 Signal0 None]\<rparr>)
   \<and> startProcess example_platform ''ipfs'' ''daemon'' [] ''/nodes/0'' [] running_world =
       (Err ErrAlreadyRunning, running_world\<lparr>trace := [EvSignal 4242 Signal0 None]\<rparr>)
   \<and> LocalNode_Start example_platform [] example_local running_world =
       (Err ErrAlreadyRunning, example_local, running_world\<lparr>trace := [EvSignal 4242 Signal0 None]\<rparr>)
   \<and> FilecoinNode_Start example_platform [] (example_filecoin\<lparr>fn_Dir := ''/nodes/0''\<rparr>)
         running_world =
       (Err ErrAlreadyRunning, example_filecoin\<lparr>fn_Dir := ''/nodes/0''\<rparr>,
        running_world\<lparr>trace := [EvSignal 4242 Signal0 None]\<rparr>)
   \<and> files (running_world\<lparr>trace := [EvSignal 4242 Signal0 None]\<rparr>) (Join ''/nodes/0'' ''daemon.pid'')
       = Some ''4242''"
proof -
  have alive: "isAlive example_platform ''/nodes/0'' running_world =
       (Ok True, running_world\<lparr>trace := [EvSignal 4242 Signal0 None]\<rparr>)"
    by (simp add: isAlive_def getPID_def ReadFile_def Signal_def IsNotExist_def Let_def
        example_platform_def running_world_def example_Atoi_def)
  have dir: "ln_Dir example_local = ''/nodes/0''"
    "fn_Dir (example_filecoin\<lparr>fn_Dir := ''/nodes/0''\<rparr>) = ''/nodes/0''"
    by (simp_all add: example_local_def)
  from alive dir
    startProcess_alive[of example_platform "''/nodes/0''" running_world
      "running_world\<lparr>trace := [EvSignal 4242 Signal0 None]\<rparr>" "''ipfs''" "''daemon''" "[]" "[]"
      example_local "example_filecoin\<lparr>fn_Dir := ''/nodes/0''\<rparr>"]
  show ?thesis
    by (simp add: running_world_def)
qed

declare digits.simps [simp del]

subsection \<open>Process launcher\<close>

lemma isAlive_False:
  assumes "isAlive pf dir w = (Ok False, w1)"
  shows "files w1 = files w \<and>
         (trace w1 = trace w \<or> (\<exists>pid e. trace w1 = trace w @ [EvSignal pid Signal0 (Some e)]))"
  using assms
  by (auto simp: isAlive_def Signal_def Let_def split: res.splits option.splits if_splits)

text \<open>What a successful \<open>startProcess\<close> has done, in full.\<close>

lemma startProcess_Ok:
  assumes "startProcess pf bin dcmd args dir env w = (Ok (), w')"
  shows "\<exists>w1 pid. isAlive pf dir w = (Ok False, w1) \<and>
     trace w' = trace w1 @
       [EvStart ((setupOpt pf ((Command bin ([dcmd] @ args))\<lparr>cmd_Dir := dir, cmd_Env := env\<rparr>))
                   \<lparr>cmd_Stdout := Some (Join dir ''daemon.stdout''),
                    cmd_Stderr := Some (Join dir ''daemon.stderr'')\<rparr>) (Inr pid)] \<and>
     files w' = (files w1)(Join dir ''daemon.stdout'' \<mapsto> [], Join dir ''daemon.stderr'' \<mapsto> [],
                  Join dir ''daemon.pid'' \<mapsto> Sprint pid)"
proof -
  obtain r1 w1 where alive: "isAlive pf dir w = (r1, w1)"
    by (cases "isAlive pf dir w")
  with assms have r1: "r1 = Ok False"
    by (cases r1) (auto simp: startProcess_def split: if_splits)
  define c where "c = (setupOpt pf ((Command bin ([dcmd] @ args))\<lparr>cmd_Dir := dir, cmd_Env := env\<rparr>))
                   \<lparr>cmd_Stdout := Some (Join dir ''daemon.stdout''),
                    cmd_Stderr := Some (Join dir ''daemon.stderr'')\<rparr>"
  define w2 where "w2 = w1\<lparr>files := (files w1)(Join dir ''daemon.stdout'' \<mapsto> [])\<rparr>"
  define w3 where "w3 = w2\<lparr>files := (files w2)(Join dir ''daemon.stderr'' \<mapsto> [])\<rparr>"
  have rest: "(case Create pf (Join dir ''daemon.stdout'') w1 of
                  (Some err, w2) \<Rightarrow> (Err err, w2)
                | (None, w2) \<Rightarrow>
                    (case Create pf (Join dir ''daemon.stderr'') w2 of
                       (Some err, w3) \<Rightarrow> (Err err, w3)
                     | (None, w3) \<Rightarrow>
                         (case Start pf c w3 of
                            (Inl err, w4) \<Rightarrow> (Err err, w4)
                          | (Inr pid, w4) \<Rightarrow>
                              (case WriteFile pf (Join dir ''daemon.pid'') (Sprint pid) w4 of
                                 (Some err, w5) \<Rightarrow> (Err err, w5)
                               | (None, w5) \<Rightarrow> (Ok (), w5))))) = (Ok (), w')"
    using assms alive r1 unfolding startProcess_def c_def Let_def by simp
  have c1: "Create pf (Join dir ''daemon.stdout'') w1 = (None, w2)"
    using rest by (auto simp: Create_def w2_def split: option.splits)
  have c2: "Create pf (Join dir ''daemon.stderr'') w2 = (None, w3)"
    using rest c1 by (auto simp: Create_def w3_def split: option.splits)
  obtain pid where st: "Start pf c w3 = (Inr pid, w3\<lparr>trace := trace w3 @ [EvStart c (Inr pid)]\<rparr>)"
    using rest c1 c2 by (cases "Start_res pf w3 c") (auto simp: Start_def Let_def)
  have "w' = w3\<lparr>trace := trace w3 @ [EvStart c (Inr pid)],
               files := (files w3)(Join dir ''daemon.pid'' \<mapsto> Sprint pid)\<rparr>"
    using rest c1 c2 st by (auto simp: WriteFile_def split: option.splits)
  then have "trace w' = trace w1 @ [EvStart c (Inr pid)] \<and>
     files w' = (files w1)(Join dir ''daemon.stdout'' \<mapsto> [], Join dir ''daemon.stderr'' \<mapsto> [],
                  Join dir ''daemon.pid'' \<mapsto> Sprint pid)"
    by (simp add: w3_def w2_def)
  with alive r1 show ?thesis unfolding c_def by blast
qed

lemma LocalNode_Start_Ok:
  assumes "LocalNode_Start pf args n w = (Ok (), n', w')"
  shows "\<exists>w1. startProcess pf ''ipfs'' ''daemon'' args (ln_Dir n) (LocalNode_envForDaemon pf n) w
           = (Ok (), w1)"
proof -
  obtain r1 w1 where sp: "startProcess pf ''ipfs'' ''daemon'' args (ln_Dir n)
      (LocalNode_envForDaemon pf n) w = (r1, w1)"
    by (cases "startProcess pf ''ipfs'' ''daemon'' args (ln_Dir n) (LocalNode_envForDaemon pf n) w")
  with assms have "r1 = Ok ()"
    by (cases r1) (auto simp: LocalNode_Start_def Let_def)
  with sp show ?thesis by blast
qed

lemma FilecoinNode_Start_Ok:
  assumes "FilecoinNode_Start pf args fn w = (Ok (), fn', w')"
  shows "\<exists>w1. startProcess pf ''go-filecoin'' ''daemon''
           ([''--cmdapiaddr='' @ fn_ApiPort fn, ''--swarmlisten=/ip4/127.0.0.1/tcp/0''] @ args)
           (fn_Dir fn) (FilecoinNode_envForDaemon pf fn) w = (Ok (), w1)"
proof -
  obtain r1 w1 where sp: "startProcess pf ''go-filecoin'' ''daemon''
           ([''--cmdapiaddr='' @ fn_ApiPort fn, ''--swarmlisten=/ip4/127.0.0.1/tcp/0''] @ args)
           (fn_Dir fn) (FilecoinNode_envForDaemon pf fn) w = (r1, w1)"
    by (cases "startProcess pf ''go-filecoin'' ''daemon''
           ([''--cmdapiaddr='' @ fn_ApiPort fn, ''--swarmlisten=/ip4/127.0.0.1/tcp/0''] @ args)
           (fn_Dir fn) (FilecoinNode_envForDaemon pf fn) w")
  with assms have "r1 = Ok ()"
    by (cases r1) (auto simp: FilecoinNode_Start_def Let_def)
  with sp show ?thesis by blast
qed

text \<open>
  Claim C6, as the code has it. On every successful launch the last entry of the log is
  the start of a command whose standard output and standard error are the files
  \<^verbatim>\<open>daemon.stdout\<close> and \<^verbatim>\<open>daemon.stderr\<close> of the node directory. Both files were
  opened by \<^verbatim>\<open>os.Create\<close>, which creates a file or truncates the one that is there,
  so both are empty when the daemon starts: they are not opened for appending. The
  working directory and the environment of the command are the directory and the
  environment \<open>startProcess\<close> was given, provided \<open>setupOpt\<close> (defined in another
  file) leaves these two fields alone; a \<open>Start\<close> method that succeeds has launched
  with its node's directory and the environment builder's output.
\<close>

theorem startProcess_redirects:
  "(startProcess pf bin dcmd args dir env w = (Ok (), w') \<longrightarrow>
      (\<exists>c pid. trace w' \<noteq> [] \<and> last (trace w') = EvStart c (Inr pid)
         \<and> c = (setupOpt pf ((Command bin ([dcmd] @ args))\<lparr>cmd_Dir := dir, cmd_Env := env\<rparr>))
                   \<lparr>cmd_Stdout := Some (Join dir ''daemon.stdout''),
                    cmd_Stderr := Some (Join dir ''daemon.stderr'')\<rparr>
         \<and> cmd_Stdout c = Some (Join dir ''daemon.stdout'')
         \<and> cmd_Stderr c = Some (Join dir ''daemon.stderr'')
         \<and> ((\<forall>c0. cmd_Dir (setupOpt pf c0) = cmd_Dir c0 \<and> cmd_Env (setupOpt pf c0) = cmd_Env c0)
                \<longrightarrow> cmd_Dir c = dir \<and> cmd_Env c = env))
      \<and> files w' (Join dir ''daemon.stdout'') = Some []
      \<and> files w' (Join dir ''daemon.stderr'') = Some [])
   \<and> (LocalNode_Start pf largs n w = (Ok (), n', lw) \<longrightarrow>
        (\<exists>w1. startProcess pf ''ipfs'' ''daemon'' largs (ln_Dir n) (LocalNode_envForDaemon pf n) w
           = (Ok (), w1)))
   \<and> (FilecoinNode_Start pf fargs fn w = (Ok (), fn', fw) \<longrightarrow>
        (\<exists>w1. startProcess pf ''go-filecoin'' ''daemon''
           ([''--cmdapiaddr='' @ fn_ApiPort fn, ''--swarmlisten=/ip4/127.0.0.1/tcp/0''] @ fargs)
           (fn_Dir fn) (FilecoinNode_envForDaemon pf fn) w = (Ok (), w1)))"
proof (intro conjI impI)
  assume ok: "startProcess pf bin dcmd args dir env w = (Ok (), w')"
  define c where "c = (setupOpt pf ((Command bin ([dcmd] @ args))\<lparr>cmd_Dir := dir, cmd_Env := env\<rparr>))
                   \<lparr>cmd_Stdout := Some (Join dir ''daemon.stdout''),
                    cmd_Stderr := Some (Join dir ''daemon.stderr'')\<rparr>"
  from startProcess_Ok[OF ok, folded c_def] obtain w1 where
    "\<exists>pid. isAlive pf dir w = (Ok False, w1) \<and> trace w' = trace w1 @ [EvStart c (Inr pid)] \<and>
       files w' = (files w1)(Join dir ''daemon.stdout'' \<mapsto> [], Join dir ''daemon.stderr'' \<mapsto> [],
                  Join dir ''daemon.pid'' \<mapsto> Sprint pid)" ..
  then obtain pid where
    h: "isAlive pf dir w = (Ok False, w1) \<and> trace w' = trace w1 @ [EvStart c (Inr pid)] \<and>
       files w' = (files w1)(Join dir ''daemon.stdout'' \<mapsto> [], Join dir ''daemon.stderr'' \<mapsto> [],
                  Join dir ''daemon.pid'' \<mapsto> Sprint pid)" ..
  from h have tr: "trace w' = trace w1 @ [EvStart c (Inr pid)]" by simp
  from h have fs: "files w' = (files w1)(Join dir ''daemon.stdout'' \<mapsto> [],
      Join dir ''daemon.stderr'' \<mapsto> [], Join dir ''daemon.pid'' \<mapsto> Sprint pid)" by simp
  have "(\<forall>c0. cmd_Dir (setupOpt pf c0) = cmd_Dir c0 \<and> cmd_Env (setupOpt pf c0) = cmd_Env c0)
          \<longrightarrow> cmd_Dir c = dir \<and> cmd_Env c = env"
    by (simp add: c_def)
  moreover have "cmd_Stdout c = Some (Join dir ''daemon.stdout'')"
    "cmd_Stderr c = Some (Join dir ''daemon.stderr'')"
    by (simp_all add: c_def)
  moreover have "trace w' \<noteq> []" "last (trace w') = EvStart c (Inr pid)"
    using tr by simp_all
  ultimately show "\<exists>c pid. trace w' \<noteq> [] \<and> last (trace w') = EvStart c (Inr pid)
         \<and> c = (setupOpt pf ((Command bin ([dcmd] @ args))\<lparr>cmd_Dir := dir, cmd_Env := env\<rparr>))
                   \<lparr>cmd_Stdout := Some (Join dir ''daemon.stdout''),
                    cmd_Stderr := Some (Join dir ''daemon.stderr'')\<rparr>
         \<and> cmd_Stdout c = Some (Join dir ''daemon.stdout'')
         \<and> cmd_Stderr c = Some (Join dir ''daemon.stderr'')
         \<and> ((\<forall>c0. cmd_Dir (setupOpt pf c0) = cmd_Dir c0 \<and> cmd_Env (setupOpt pf c0) = cmd_Env c0)
                \<longrightarrow> cmd_Dir c = dir \<and> cmd_Env c = env)"
    using c_def by blast
  show "files w' (Join dir ''daemon.stdout'') = Some []"
    using fs by (simp add: Join_def)
  show "files w' (Join dir ''daemon.stderr'') = Some []"
    using fs by (simp add: Join_def)
next
  assume "LocalNode_Start pf largs n w = (Ok (), n', lw)"
  then show "\<exists>w1. startProcess pf ''ipfs'' ''daemon'' largs (ln_Dir n) (LocalNode_envForDaemon pf n) w
           = (Ok (), w1)"
    by (rule LocalNode_Start_Ok)
next
  assume "FilecoinNode_Start pf fargs fn w = (Ok (), fn', fw)"
  then show "\<exists>w1. startProcess pf ''go-filecoin'' ''daemon''
           ([''--cmdapiaddr='' @ fn_ApiPort fn, ''--swarmlisten=/ip4/127.0.0.1/tcp/0''] @ fargs)
           (fn_Dir fn) (FilecoinNode_envForDaemon pf fn) w = (Ok (), w1)"
    by (rule FilecoinNode_Start_Ok)
qed

text \<open>The example platform, field by field.\<close>

lemma example_platform_fields:
  "Environ example_platform = [''HOME=/root'', ''IPFS_PATH=/old'', ''FIL_API=1234'']"
  "Getenv example_platform = (\<lambda>k. if k = ''SHELL'' then ''/bin/sh'' else [])"
  "Atoi example_platform = example_Atoi"
  "TrimSpace example_platform = example_TrimSpace"
  "FindProcess_err example_platform = (\<lambda>pid. None)"
  "Signal_err example_platform = (\<lambda>w pid s. None)"
  "io_err example_platform = (\<lambda>w op. None)"
  "Start_res example_platform = (\<lambda>w c. Inr 4242)"
  "Run_res example_platform = (\<lambda>w args env. (None, ''QmNode'' @ [CHR 0x0A], []))"
  "serial_Load example_platform = (\<lambda>w p. Inr \<lparr>Identity_PeerID = ''QmLocal''\<rparr>)"
  "setupOpt example_platform = (\<lambda>c. c\<lparr>cmd_SysProcAttr := Some ''Setsid''\<rparr>)"
  "waitOnAPI example_platform = (\<lambda>n w. (None, w))"
  "LoadNodes example_platform = (\<lambda>w. Inr [])"
  by (simp_all add: example_platform_def)

lemma Sprint_4242: "Sprint 4242 = ''4242''"
  by (simp add: Sprint_def digits.simps)

lemma isAlive_absent:
  "io_err pf w (OpRead (Join dir ''daemon.pid'')) = None \<Longrightarrow>
     files w (Join dir ''daemon.pid'') = None \<Longrightarrow> isAlive pf dir w = (Ok False, w)"
  by (simp add: isAlive_def getPID_def ReadFile_def IsNotExist_def)

text \<open>The launch on any platform that starts process 4242 and has no failing file.\<close>

lemma quiet_startProcess:
  assumes "io_err pf = (\<lambda>w op. None)" "Start_res pf = (\<lambda>w c. Inr 4242)"
    "setupOpt pf = (\<lambda>c. c\<lparr>cmd_SysProcAttr := Some ''Setsid''\<rparr>)"
  shows "startProcess pf bin dcmd args dir env example_world =
     (Ok (),
      \<lparr>files = [Join dir ''daemon.stdout'' \<mapsto> [], Join dir ''daemon.stderr'' \<mapsto> [],
                Join dir ''daemon.pid'' \<mapsto> ''4242''],
       trace = [EvStart \<lparr>cmd_Path = bin, cmd_Args = bin # dcmd # args, cmd_Dir = dir, cmd_Env = env,
                         cmd_Stdout = Some (Join dir ''daemon.stdout''),
                         cmd_Stderr = Some (Join dir ''daemon.stderr''),
                         cmd_SysProcAttr = Some ''Setsid''\<rparr> (Inr 4242)]\<rparr>)"
  by (simp add: startProcess_def isAlive_absent Create_def Start_def WriteFile_def Command_def
      Let_def Sprint_4242 assms example_world_def)

text \<open>One identity query of the Filecoin node, and a loop whose first query succeeds.\<close>

lemma FilecoinNode_RunCmd_query:
  "FilecoinNode_RunCmd pf fn [''go-filecoin'', ''id'', ''--format=<id>''] w =
     (case Run_res pf w [''go-filecoin'', ''id'', ''--format=<id>''] (FilecoinNode_envForDaemon pf fn) of
        (Some err, outbuf, errbuf) \<Rightarrow>
          (Err (ErrCmd err outbuf errbuf),
           w\<lparr>trace := trace w @ [EvRun [''go-filecoin'', ''id'', ''--format=<id>'']
               (FilecoinNode_envForDaemon pf fn) (Some err, outbuf, errbuf)]\<rparr>)
      | (None, outbuf, errbuf) \<Rightarrow>
          (Ok outbuf,
           w\<lparr>trace := trace w @ [EvRun [''go-filecoin'', ''id'', ''--format=<id>'']
               (FilecoinNode_envForDaemon pf fn) (None, outbuf, errbuf)]\<rparr>))"
  by (simp add: FilecoinNode_RunCmd_def runCmd_def Run_def Let_def split: prod.splits option.splits)

lemma Start_loop_first_ok:
  assumes "Run_res pf w [''go-filecoin'', ''id'', ''--format=<id>'']
      (FilecoinNode_envForDaemon pf fn) = (None, outbuf, errbuf)"
    and "0 < k"
  shows "Start_loop pf k fn w =
     (Ok (), fn\<lparr>fn_PeerID := TrimSpace pf outbuf\<rparr>,
      w\<lparr>trace := trace w @
           [EvRun [''go-filecoin'', ''id'', ''--format=<id>''] (FilecoinNode_envForDaemon pf fn)
              (None, outbuf, errbuf)]\<rparr>)"
  using assms by (cases k) (simp_all add: FilecoinNode_RunCmd_query)

text \<open>Both \<open>Start\<close> methods on the example platform.\<close>

lemma example_LocalNode_Start:
  "LocalNode_Start example_platform [] example_local example_world =
     (Ok (), example_local\<lparr>ln_PeerID := ''QmLocal''\<rparr>,
      \<lparr>files = [Join ''/nodes/0'' ''daemon.stdout'' \<mapsto> [], Join ''/nodes/0'' ''daemon.stderr'' \<mapsto> [],
                Join ''/nodes/0'' ''daemon.pid'' \<mapsto> ''4242''],
       trace = [EvStart \<lparr>cmd_Path = ''ipfs'', cmd_Args = [''ipfs'', ''daemon''], cmd_Dir = ''/nodes/0'',
                         cmd_Env = LocalNode_envForDaemon example_platform example_local,
                         cmd_Stdout = Some (Join ''/nodes/0'' ''daemon.stdout''),
                         cmd_Stderr = Some (Join ''/nodes/0'' ''daemon.stderr''),
                         cmd_SysProcAttr = Some ''Setsid''\<rparr> (Inr 4242)]\<rparr>)"
proof -
  have dir: "ln_Dir example_local = ''/nodes/0''"
    by (simp add: example_local_def)
  show ?thesis
    unfolding LocalNode_Start_def Let_def dir
    by (simp add: quiet_startProcess[OF example_platform_fields(7,8,11)]
        example_platform_fields(10,12))
qed

lemma example_FilecoinNode_Start:
  "FilecoinNode_Start example_platform [] example_filecoin example_world =
     (Ok (), example_filecoin\<lparr>fn_PeerID := ''QmNode''\<rparr>,
      \<lparr>files = [Join ''/nodes/1'' ''daemon.stdout'' \<mapsto> [], Join ''/nodes/1'' ''daemon.stderr'' \<mapsto> [],
                Join ''/nodes/1'' ''daemon.pid'' \<mapsto> ''4242''],
       trace = [EvStart \<lparr>cmd_Path = ''go-filecoin'',
                         cmd_Args = [''go-filecoin'', ''daemon'', ''--cmdapiaddr=:3453'',
                                     ''--swarmlisten=/ip4/127.0.0.1/tcp/0''],
                         cmd_Dir = ''/nodes/1'',
                         cmd_Env = FilecoinNode_envForDaemon example_platform example_filecoin,
                         cmd_Stdout = Some (Join ''/nodes/1'' ''daemon.stdout''),
                         cmd_Stderr = Some (Join ''/nodes/1'' ''daemon.stderr''),
                         cmd_SysProcAttr = Some ''Setsid''\<rparr> (Inr 4242),
                EvSleep 100,
                EvRun [''go-filecoin'', ''id'', ''--format=<id>'']
                  (FilecoinNode_envForDaemon example_platform example_filecoin)
                  (None, ''QmNode'' @ [CHR 0x0A], [])]\<rparr>)"
proof -
  have run: "Run_res example_platform w [''go-filecoin'', ''id'', ''--format=<id>'']
      (FilecoinNode_envForDaemon example_platform example_filecoin)
      = (None, ''QmNode'' @ [CHR 0x0A], [])" for w
    by (simp add: example_platform_fields)
  have dir: "fn_Dir example_filecoin = ''/nodes/1''" "fn_ApiPort example_filecoin = '':3453''"
    by (simp_all add: example_filecoin_def)
  show ?thesis
    unfolding FilecoinNode_Start_def Let_def dir
    by (simp add: quiet_startProcess[OF example_platform_fields(7,8,11)]
        Start_loop_first_ok[OF run] example_platform_fields(4) example_TrimSpace_def Sleep_def)
qed

text \<open>
  The theorem at the example platform, whose \<open>setupOpt\<close> sets the process
  attributes only: the launch of the IPFS daemon in \<^verbatim>\<open>/nodes/0\<close>, and the
  \<open>Start\<close> methods of both kinds of node, which succeed there.
\<close>

theorem startProcess_redirects_witness:
  "startProcess example_platform ''ipfs'' ''daemon'' [] ''/nodes/0''
       (LocalNode_envForDaemon example_platform example_local) example_world =
     (Ok (),
      \<lparr>files = [Join ''/nodes/0'' ''daemon.stdout'' \<mapsto> [], Join ''/nodes/0'' ''daemon.stderr'' \<mapsto> [],
                Join ''/nodes/0'' ''daemon.pid'' \<mapsto> ''4242''],
       trace = [EvStart \<lparr>cmd_Path = ''ipfs'', cmd_Args = [''ipfs'', ''daemon''], cmd_Dir = ''/nodes/0'',
                         cmd_Env = LocalNode_envForDaemon example_platform example_local,
                         cmd_Stdout = Some (Join ''/nodes/0'' ''daemon.stdout''),
                         cmd_Stderr = Some (Join ''/nodes/0'' ''daemon.stderr''),
                         cmd_SysProcAttr = Some ''Setsid''\<rparr> (Inr 4242)]\<rparr>)
   \<and> (\<exists>c pid. last (trace (snd (startProcess example_platform ''ipfs'' ''daemon'' [] ''/nodes/0''
                 (LocalNode_envForDaemon example_platform example_local) example_world)))
                = EvStart c (Inr pid)
          \<and> cmd_Stdout c = Some (Join ''/nodes/0'' ''daemon.stdout'')
          \<and> cmd_Stderr c = Some (Join ''/nodes/0'' ''daemon.stderr'')
          \<and> cmd_Dir c = ''/nodes/0''
          \<and> cmd_Env c = LocalNode_envForDaemon example_platform example_local)
   \<and> fst (LocalNode_Start example_platform [] example_local example_world) = Ok ()
   \<and> (\<exists>w1. startProcess example_platform ''ipfs'' ''daemon'' [] (ln_Dir example_local)
              (LocalNode_envForDaemon example_platform example_local) example_world = (Ok (), w1))
   \<and> fst (FilecoinNode_Start example_platform [] example_filecoin example_world) = Ok ()
   \<and> (\<exists>w1. startProcess example_platform ''go-filecoin'' ''daemon''
              ([''--cmdapiaddr='' @ fn_ApiPort example_filecoin,
                ''--swarmlisten=/ip4/127.0.0.1/tcp/0''] @ [])
              (fn_Dir example_filecoin)
              (FilecoinNode_envForDaemon example_platform example_filecoin) example_world
            = (Ok (), w1))"
proof -
  define env where "env = LocalNode_envForDaemon example_platform example_local"
  define w' where "w' = snd (startProcess example_platform ''ipfs'' ''daemon'' [] ''/nodes/0'' env
      example_world)"
  have ok: "startProcess example_platform ''ipfs'' ''daemon'' [] ''/nodes/0'' env example_world
      = (Ok (), w')"
    by (simp add: w'_def quiet_startProcess[OF example_platform_fields(7,8,11)])
  have keeps: "\<forall>c0. cmd_Dir (setupOpt example_platform c0) = cmd_Dir c0 \<and>
      cmd_Env (setupOpt example_platform c0) = cmd_Env c0"
    by (simp add: example_platform_def)
  from ok keeps
    startProcess_redirects[of example_platform "''ipfs''" "''daemon''" "[]" "''/nodes/0''" env
      example_world w']
  have launch: "\<exists>c pid. last (trace w') = EvStart c (Inr pid)
          \<and> cmd_Stdout c = Some (Join ''/nodes/0'' ''daemon.stdout'')
          \<and> cmd_Stderr c = Some (Join ''/nodes/0'' ''daemon.stderr'')
          \<and> cmd_Dir c = ''/nodes/0'' \<and> cmd_Env c = env"
    by blast
  obtain n' lw where l: "LocalNode_Start example_platform [] example_local example_world
      = (Ok (), n', lw)"
    using example_LocalNode_Start by blast
  obtain fn' fw where f: "FilecoinNode_Start example_platform [] example_filecoin example_world
      = (Ok (), fn', fw)"
    using example_FilecoinNode_Start by blast
  from l startProcess_redirects[where pf = example_platform and largs = "[]"
      and n = example_local and w = example_world and n' = n' and lw = lw]
  have lstart: "\<exists>w1. startProcess example_platform ''ipfs'' ''daemon'' [] (ln_Dir example_local)
              (LocalNode_envForDaemon example_platform example_local) example_world = (Ok (), w1)"
    by blast
  from f startProcess_redirects[where pf = example_platform and fargs = "[]"
      and fn = example_filecoin and w = example_world and fn' = fn' and fw = fw]
  have fstart: "\<exists>w1. startProcess example_platform ''go-filecoin'' ''daemon''
              ([''--cmdapiaddr='' @ fn_ApiPort example_filecoin,
                ''--swarmlisten=/ip4/127.0.0.1/tcp/0''] @ [])
              (fn_Dir example_filecoin)
              (FilecoinNode_envForDaemon example_platform example_filecoin) example_world
            = (Ok (), w1)"
    by blast
  have a: "startProcess example_platform ''ipfs'' ''daemon'' [] ''/nodes/0''
       (LocalNode_envForDaemon example_platform example_local) example_world =
     (Ok (),
      \<lparr>files = [Join ''/nodes/0'' ''daemon.stdout'' \<mapsto> [], Join ''/nodes/0'' ''daemon.stderr'' \<mapsto> [],
                Join ''/nodes/0'' ''daemon.pid'' \<mapsto> ''4242''],
       trace = [EvStart \<lparr>cmd_Path = ''ipfs'', cmd_Args = [''ipfs'', ''daemon''], cmd_Dir = ''/nodes/0'',
                         cmd_Env = LocalNode_envForDaemon example_platform example_local,
                         cmd_Stdout = Some (Join ''/nodes/0'' ''daemon.stdout''),
                         cmd_Stderr = Some (Join ''/nodes/0'' ''daemon.stderr''),
                         cmd_SysProcAttr = Some ''Setsid''\<rparr> (Inr 4242)]\<rparr>)"
    by (simp add: quiet_startProcess[OF example_platform_fields(7,8,11)])
  from launch have b: "\<exists>c pid. last (trace (snd (startProcess example_platform ''ipfs'' ''daemon'' []
                 ''/nodes/0'' (LocalNode_envForDaemon example_platform example_local)
                 example_world)))
                = EvStart c (Inr pid)
          \<and> cmd_Stdout c = Some (Join ''/nodes/0'' ''daemon.stdout'')
          \<and> cmd_Stderr c = Some (Join ''/nodes/0'' ''daemon.stderr'')
          \<and> cmd_Dir c = ''/nodes/0''
          \<and> cmd_Env c = LocalNode_envForDaemon example_platform example_local"
    unfolding w'_def env_def .
  from l have c: "fst (LocalNode_Start example_platform [] example_local example_world) = Ok ()"
    by simp
  from f have d: "fst (FilecoinNode_Start example_platform [] example_filecoin example_world) = Ok ()"
    by simp
  from a b c lstart d fstart show ?thesis
    by (intro conjI)
qed

text \<open>
  Claim C6 as it is written says the two files are opened for appending. They are not:
  a launch in a directory whose \<^verbatim>\<open>daemon.stdout\<close> holds earlier output succeeds
  and leaves the file empty.
\<close>

theorem startProcess_truncates_counterexample:
  "files log_world (Join ''/nodes/0'' ''daemon.stdout'') = Some ''earlier output''
   \<and> fst (startProcess example_platform ''ipfs'' ''daemon'' [] ''/nodes/0'' [] log_world) = Ok ()
   \<and> files (snd (startProcess example_platform ''ipfs'' ''daemon'' [] ''/nodes/0'' [] log_world))
         (Join ''/nodes/0'' ''daemon.stdout'') = Some []"
  by (simp add: startProcess_def isAlive_absent Create_def Start_def WriteFile_def Let_def
      example_platform_fields log_world_def Join_def)

subsection \<open>A start whose config file cannot be loaded\<close>

text \<open>
  Claim C9. When \<open>startProcess\<close> has launched the IPFS daemon and written the PID
  file, and \<^verbatim>\<open>serial.Load\<close> of the node's config file then fails,
  \<open>LocalNode.Start\<close> returns that error in the very world the launch left: the last
  entry of the log is the start of the daemon, so no signal was sent to it afterwards,
  the PID file holds its process identifier, and the node is unchanged.
\<close>

theorem LocalNode_Start_load_fails:
  "startProcess pf ''ipfs'' ''daemon'' args (ln_Dir n) (LocalNode_envForDaemon pf n) w = (Ok (), w1)
   \<and> serial_Load pf w1 (Join (ln_Dir n) ''config'') = Inl err \<longrightarrow>
     LocalNode_Start pf args n w = (Err err, n, w1)
     \<and> (\<exists>c pid. trace w1 \<noteq> [] \<and> last (trace w1) = EvStart c (Inr pid)
           \<and> files w1 (Join (ln_Dir n) ''daemon.pid'') = Some (Sprint pid))"
proof (intro impI, elim conjE)
  assume ok: "startProcess pf ''ipfs'' ''daemon'' args (ln_Dir n) (LocalNode_envForDaemon pf n) w
      = (Ok (), w1)"
    and load: "serial_Load pf w1 (Join (ln_Dir n) ''config'') = Inl err"
  have r: "LocalNode_Start pf args n w = (Err err, n, w1)"
    using ok load by (simp add: LocalNode_Start_def Let_def)
  from startProcess_Ok[OF ok] obtain w0 where
    "\<exists>pid. isAlive pf (ln_Dir n) w = (Ok False, w0) \<and>
       trace w1 = trace w0 @
         [EvStart ((setupOpt pf ((Command ''ipfs'' ([''daemon''] @ args))
                      \<lparr>cmd_Dir := ln_Dir n, cmd_Env := LocalNode_envForDaemon pf n\<rparr>))
                   \<lparr>cmd_Stdout := Some (Join (ln_Dir n) ''daemon.stdout''),
                    cmd_Stderr := Some (Join (ln_Dir n) ''daemon.stderr'')\<rparr>) (Inr pid)] \<and>
       files w1 = (files w0)(Join (ln_Dir n) ''daemon.stdout'' \<mapsto> [],
                    Join (ln_Dir n) ''daemon.stderr'' \<mapsto> [],
                    Join (ln_Dir n) ''daemon.pid'' \<mapsto> Sprint pid)" ..
  then obtain pid where
    h: "trace w1 = trace w0 @
         [EvStart ((setupOpt pf ((Command ''ipfs'' ([''daemon''] @ args))
                      \<lparr>cmd_Dir := ln_Dir n, cmd_Env := LocalNode_envForDaemon pf n\<rparr>))
                   \<lparr>cmd_Stdout := Some (Join (ln_Dir n) ''daemon.stdout''),
                    cmd_Stderr := Some (Join (ln_Dir n) ''daemon.stderr'')\<rparr>) (Inr pid)] \<and>
       files w1 = (files w0)(Join (ln_Dir n) ''daemon.stdout'' \<mapsto> [],
                    Join (ln_Dir n) ''daemon.stderr'' \<mapsto> [],
                    Join (ln_Dir n) ''daemon.pid'' \<mapsto> Sprint pid)"
    by auto
  then have "trace w1 \<noteq> []" "files w1 (Join (ln_Dir n) ''daemon.pid'') = Some (Sprint pid)"
    by simp_all
  moreover from h have "\<exists>c. last (trace w1) = EvStart c (Inr pid)"
    by simp
  ultimately show "LocalNode_Start pf args n w = (Err err, n, w1)
     \<and> (\<exists>c pid. trace w1 \<noteq> [] \<and> last (trace w1) = EvStart c (Inr pid)
           \<and> files w1 (Join (ln_Dir n) ''daemon.pid'') = Some (Sprint pid))"
    using r by blast
qed

text \<open>The platform without a config file, field by field.\<close>

lemma noconfig_platform_fields:
  "io_err noconfig_platform = (\<lambda>w op. None)"
  "Start_res noconfig_platform = (\<lambda>w c. Inr 4242)"
  "setupOpt noconfig_platform = (\<lambda>c. c\<lparr>cmd_SysProcAttr := Some ''Setsid''\<rparr>)"
  "serial_Load noconfig_platform = (\<lambda>w p. Inl (ErrExternal ''no config''))"
  by (simp_all add: noconfig_platform_def example_platform_def)

text \<open>
  The theorem on that platform: the daemon 4242 is started, its PID file is written,
  and \<open>Start\<close> returns the error of the load.
\<close>

theorem LocalNode_Start_load_fails_witness:
  "LocalNode_Start noconfig_platform [] example_local example_world =
     (Err (ErrExternal ''no config''), example_local,
      \<lparr>files = [Join ''/nodes/0'' ''daemon.stdout'' \<mapsto> [], Join ''/nodes/0'' ''daemon.stderr'' \<mapsto> [],
                Join ''/nodes/0'' ''daemon.pid'' \<mapsto> ''4242''],
       trace = [EvStart \<lparr>cmd_Path = ''ipfs'', cmd_Args = [''ipfs'', ''daemon''], cmd_Dir = ''/nodes/0'',
                         cmd_Env = LocalNode_envForDaemon noconfig_platform example_local,
                         cmd_Stdout = Some (Join ''/nodes/0'' ''daemon.stdout''),
                         cmd_Stderr = Some (Join ''/nodes/0'' ''daemon.stderr''),
                         cmd_SysProcAttr = Some ''Setsid''\<rparr> (Inr 4242)]\<rparr>)"
proof -
  define w1 where "w1 =
      \<lparr>files = [Join ''/nodes/0'' ''daemon.stdout'' \<mapsto> [], Join ''/nodes/0'' ''daemon.stderr'' \<mapsto> [],
                Join ''/nodes/0'' ''daemon.pid'' \<mapsto> ''4242''],
       trace = [EvStart \<lparr>cmd_Path = ''ipfs'', cmd_Args = [''ipfs'', ''daemon''], cmd_Dir = ''/nodes/0'',
                         cmd_Env = LocalNode_envForDaemon noconfig_platform example_local,
                         cmd_Stdout = Some (Join ''/nodes/0'' ''daemon.stdout''),
                         cmd_Stderr = Some (Join ''/nodes/0'' ''daemon.stderr''),
                         cmd_SysProcAttr = Some ''Setsid''\<rparr> (Inr 4242)]\<rparr>"
  have ok: "startProcess noconfig_platform ''ipfs'' ''daemon'' [] (ln_Dir example_local)
      (LocalNode_envForDaemon noconfig_platform example_local) example_world = (Ok (), w1)"
    by (simp add: quiet_startProcess[OF noconfig_platform_fields(1,2,3)] w1_def example_local_def)
  have load: "serial_Load noconfig_platform w1 (Join (ln_Dir example_local) ''config'')
      = Inl (ErrExternal ''no config'')"
    by (simp add: noconfig_platform_fields)
  from ok load
    LocalNode_Start_load_fails[of noconfig_platform "[]" example_local example_world w1
      "ErrExternal ''no config''"]
  have "LocalNode_Start noconfig_platform [] example_local example_world =
      (Err (ErrExternal ''no config''), example_local, w1)"
    by blast
  then show ?thesis
    unfolding w1_def .
qed

subsection \<open>Readiness waiter\<close>

text \<open>
  The loop always returns without an error: after fewer than \<open>k\<close> failed queries
  one succeeds and its trimmed output becomes the peer identity, or all \<open>k\<close> queries
  fail and the node is returned as it was.
\<close>

lemma Start_loop_trace:
  "\<exists>fails. length fails \<le> k \<and>
     ((length fails < k \<and>
        (\<exists>outbuf errbuf. Start_loop pf k fn w =
           (Ok (), fn\<lparr>fn_PeerID := TrimSpace pf outbuf\<rparr>,
            w\<lparr>trace := trace w @
                 failed_queries [''go-filecoin'', ''id'', ''--format=<id>'']
                   (FilecoinNode_envForDaemon pf fn) fails @
                 [EvRun [''go-filecoin'', ''id'', ''--format=<id>'']
                    (FilecoinNode_envForDaemon pf fn) (None, outbuf, errbuf)]\<rparr>)))
      \<or> (length fails = k \<and>
          Start_loop pf k fn w =
            (Ok (), fn,
             w\<lparr>trace := trace w @
                  failed_queries [''go-filecoin'', ''id'', ''--format=<id>'']
                    (FilecoinNode_envForDaemon pf fn) fails\<rparr>)))"
proof (induction k arbitrary: w)
  case 0
  have "Start_loop pf 0 fn w = (Ok (), fn, w\<lparr>trace := trace w @
      failed_queries [''go-filecoin'', ''id'', ''--format=<id>''] (FilecoinNode_envForDaemon pf fn) []\<rparr>)"
    by (simp add: failed_queries_def)
  then show ?case by (intro exI[of _ "[]"]) simp
next
  case (Suc k)
  define q where "q = [''go-filecoin'', ''id'', ''--format=<id>'']"
  define env where "env = FilecoinNode_envForDaemon pf fn"
  obtain r outbuf errbuf where run: "Run_res pf w q env = (r, outbuf, errbuf)"
    by (cases "Run_res pf w q env")
  show ?case
  proof (cases r)
    case None
    have "Start_loop pf (Suc k) fn w =
           (Ok (), fn\<lparr>fn_PeerID := TrimSpace pf outbuf\<rparr>,
            w\<lparr>trace := trace w @ failed_queries q env [] @ [EvRun q env (None, outbuf, errbuf)]\<rparr>)"
      using run None by (simp add: FilecoinNode_RunCmd_query failed_queries_def q_def env_def)
    then show ?thesis
      unfolding q_def env_def by (intro exI[of _ "[]"]) auto
  next
    case (Some e)
    define w2 where "w2 = Sleep 100 (w\<lparr>trace := trace w @ [EvRun q env (Some e, outbuf, errbuf)]\<rparr>)"
    have step: "Start_loop pf (Suc k) fn w = Start_loop pf k fn w2"
      using run Some by (simp add: FilecoinNode_RunCmd_query w2_def q_def env_def)
    have tr2: "trace w2 = trace w @ failed_queries q env [(e, outbuf, errbuf)]"
      by (simp add: w2_def Sleep_def failed_queries_def)
    have upd: "w2\<lparr>trace := trace w2 @ t\<rparr> = w\<lparr>trace := trace w @ failed_queries q env [(e, outbuf, errbuf)] @ t\<rparr>" for t
      by (simp add: w2_def Sleep_def failed_queries_def)
    from Suc.IH[of w2] obtain fails where
      f: "length fails \<le> k" and
      d: "(length fails < k \<and>
        (\<exists>ob eb. Start_loop pf k fn w2 =
           (Ok (), fn\<lparr>fn_PeerID := TrimSpace pf ob\<rparr>,
            w2\<lparr>trace := trace w2 @ failed_queries q env fails @ [EvRun q env (None, ob, eb)]\<rparr>)))
      \<or> (length fails = k \<and>
          Start_loop pf k fn w2 = (Ok (), fn, w2\<lparr>trace := trace w2 @ failed_queries q env fails\<rparr>))"
      unfolding q_def env_def by blast
    from d have "(length ((e, outbuf, errbuf) # fails) < Suc k \<and>
        (\<exists>ob eb. Start_loop pf (Suc k) fn w =
           (Ok (), fn\<lparr>fn_PeerID := TrimSpace pf ob\<rparr>,
            w\<lparr>trace := trace w @ failed_queries q env ((e, outbuf, errbuf) # fails) @
                 [EvRun q env (None, ob, eb)]\<rparr>)))
      \<or> (length ((e, outbuf, errbuf) # fails) = Suc k \<and>
          Start_loop pf (Suc k) fn w =
            (Ok (), fn, w\<lparr>trace := trace w @ failed_queries q env ((e, outbuf, errbuf) # fails)\<rparr>))"
      unfolding step upd by (simp add: failed_queries_def)
    moreover have "length ((e, outbuf, errbuf) # fails) \<le> Suc k"
      using f by simp
    ultimately show ?thesis
      unfolding q_def env_def by blast
  qed
qed

text \<open>
  Claim C7. After a successful launch, \<open>FilecoinNode.Start\<close> sleeps 100 ms and then
  queries the identity of the node at most 10 times, sleeping 100 ms after each failed
  query. The first query that succeeds ends the loop, and its output, trimmed by
  \<^verbatim>\<open>strings.TrimSpace\<close>, is recorded as the peer identity of the node. When all 10
  queries fail the node is returned unchanged, so its peer identity stays what it was
  (empty for a node that had none). In both cases the result is nil.
\<close>

theorem FilecoinNode_Start_readiness:
  "startProcess pf ''go-filecoin'' ''daemon''
       ([''--cmdapiaddr='' @ fn_ApiPort fn, ''--swarmlisten=/ip4/127.0.0.1/tcp/0''] @ args)
       (fn_Dir fn) (FilecoinNode_envForDaemon pf fn) w = (Ok (), w1) \<longrightarrow>
     (\<exists>fails. length fails \<le> 10 \<and>
        ((length fails < 10 \<and>
           (\<exists>outbuf errbuf. FilecoinNode_Start pf args fn w =
              (Ok (), fn\<lparr>fn_PeerID := TrimSpace pf outbuf\<rparr>,
               w1\<lparr>trace := trace w1 @ EvSleep 100 #
                    failed_queries [''go-filecoin'', ''id'', ''--format=<id>'']
                      (FilecoinNode_envForDaemon pf fn) fails @
                    [EvRun [''go-filecoin'', ''id'', ''--format=<id>'']
                       (FilecoinNode_envForDaemon pf fn) (None, outbuf, errbuf)]\<rparr>)))
         \<or> (length fails = 10 \<and>
             FilecoinNode_Start pf args fn w =
               (Ok (), fn,
                w1\<lparr>trace := trace w1 @ EvSleep 100 #
                     failed_queries [''go-filecoin'', ''id'', ''--format=<id>'']
                       (FilecoinNode_envForDaemon pf fn) fails\<rparr>))))"
proof
  assume ok: "startProcess pf ''go-filecoin'' ''daemon''
       ([''--cmdapiaddr='' @ fn_ApiPort fn, ''--swarmlisten=/ip4/127.0.0.1/tcp/0''] @ args)
       (fn_Dir fn) (FilecoinNode_envForDaemon pf fn) w = (Ok (), w1)"
  have start: "FilecoinNode_Start pf args fn w = Start_loop pf 10 fn (Sleep 100 w1)"
    using ok by (simp add: FilecoinNode_Start_def Let_def)
  have upd: "(Sleep 100 w1)\<lparr>trace := trace (Sleep 100 w1) @ t\<rparr> = w1\<lparr>trace := trace w1 @ EvSleep 100 # t\<rparr>"
    for t by (simp add: Sleep_def)
  from Start_loop_trace[of 10 pf fn "Sleep 100 w1"]
  show "\<exists>fails. length fails \<le> 10 \<and>
        ((length fails < 10 \<and>
           (\<exists>outbuf errbuf. FilecoinNode_Start pf args fn w =
              (Ok (), fn\<lparr>fn_PeerID := TrimSpace pf outbuf\<rparr>,
               w1\<lparr>trace := trace w1 @ EvSleep 100 #
                    failed_queries [''go-filecoin'', ''id'', ''--format=<id>'']
                      (FilecoinNode_envForDaemon pf fn) fails @
                    [EvRun [''go-filecoin'', ''id'', ''--format=<id>'']
                       (FilecoinNode_envForDaemon pf fn) (None, outbuf, errbuf)]\<rparr>)))
         \<or> (length fails = 10 \<and>
             FilecoinNode_Start pf args fn w =
               (Ok (), fn,
                w1\<lparr>trace := trace w1 @ EvSleep 100 #
                     failed_queries [''go-filecoin'', ''id'', ''--format=<id>'']
                       (FilecoinNode_envForDaemon pf fn) fails\<rparr>)))"
    unfolding start upd .
qed

lemma Start_loop_all_fail:
  assumes "\<And>w. Run_res pf w [''go-filecoin'', ''id'', ''--format=<id>'']
      (FilecoinNode_envForDaemon pf fn) = (Some e, outbuf, errbuf)"
  shows "Start_loop pf k fn w =
     (Ok (), fn,
      w\<lparr>trace := trace w @
           concat (replicate k
             [EvRun [''go-filecoin'', ''id'', ''--format=<id>''] (FilecoinNode_envForDaemon pf fn)
                (Some e, outbuf, errbuf),
              EvSleep 100])\<rparr>)"
proof (induction k arbitrary: w)
  case 0
  show ?case by simp
next
  case (Suc k)
  show ?case
    by (simp add: FilecoinNode_RunCmd_query assms Suc.IH Sleep_def)
qed

lemma silent_Start:
  "FilecoinNode_Start silent_platform [] example_filecoin example_world =
     (Ok (), example_filecoin,
      \<lparr>files = [Join ''/nodes/1'' ''daemon.stdout'' \<mapsto> [], Join ''/nodes/1'' ''daemon.stderr'' \<mapsto> [],
                Join ''/nodes/1'' ''daemon.pid'' \<mapsto> ''4242''],
       trace = EvStart \<lparr>cmd_Path = ''go-filecoin'',
                         cmd_Args = [''go-filecoin'', ''daemon'', ''--cmdapiaddr=:3453'',
                                     ''--swarmlisten=/ip4/127.0.0.1/tcp/0''],
                         cmd_Dir = ''/nodes/1'',
                         cmd_Env = FilecoinNode_envForDaemon silent_platform example_filecoin,
                         cmd_Stdout = Some (Join ''/nodes/1'' ''daemon.stdout''),
                         cmd_Stderr = Some (Join ''/nodes/1'' ''daemon.stderr''),
                         cmd_SysProcAttr = Some ''Setsid''\<rparr> (Inr 4242) #
               EvSleep 100 #
               concat (replicate 10
                 [EvRun [''go-filecoin'', ''id'', ''--format=<id>'']
                    (FilecoinNode_envForDaemon silent_platform example_filecoin)
                    (Some (ErrExternal ''exit status 1''), [], ''api not running''),
                  EvSleep 100])\<rparr>)"
proof -
  have fields: "io_err silent_platform = (\<lambda>w op. None)"
    "Start_res silent_platform = (\<lambda>w c. Inr 4242)"
    "setupOpt silent_platform = (\<lambda>c. c\<lparr>cmd_SysProcAttr := Some ''Setsid''\<rparr>)"
    "Run_res silent_platform =
       (\<lambda>w args env. (Some (ErrExternal ''exit status 1''), [], ''api not running''))"
    by (simp_all add: silent_platform_def example_platform_def)
  have fails: "\<And>w. Run_res silent_platform w [''go-filecoin'', ''id'', ''--format=<id>'']
      (FilecoinNode_envForDaemon silent_platform example_filecoin)
      = (Some (ErrExternal ''exit status 1''), [], ''api not running'')"
    by (simp add: fields)
  have dir: "fn_Dir example_filecoin = ''/nodes/1''" "fn_ApiPort example_filecoin = '':3453''"
    by (simp_all add: example_filecoin_def)
  show ?thesis
    unfolding FilecoinNode_Start_def Let_def dir
    by (simp add: quiet_startProcess[OF fields(1,2,3)] Start_loop_all_fail[OF fails] Sleep_def)
qed

text \<open>
  The theorem on the silent platform: ten failed queries, each followed by a sleep, no
  error, and the peer identity still empty. On the example platform the first query
  succeeds and the identity is its output without the line end.
\<close>

theorem FilecoinNode_Start_readiness_witness:
  "fst (FilecoinNode_Start silent_platform [] example_filecoin example_world) = Ok ()
   \<and> fn_PeerID (fst (snd (FilecoinNode_Start silent_platform [] example_filecoin example_world)))
       = []
   \<and> drop 1 (trace (snd (snd (FilecoinNode_Start silent_platform [] example_filecoin example_world))))
       = EvSleep 100 #
         concat (replicate 10
           [EvRun [''go-filecoin'', ''id'', ''--format=<id>'']
              (FilecoinNode_envForDaemon silent_platform example_filecoin)
              (Some (ErrExternal ''exit status 1''), [], ''api not running''),
            EvSleep 100])
   \<and> fn_PeerID (fst (snd (FilecoinNode_Start example_platform [] example_filecoin example_world)))
       = ''QmNode''"
proof -
  have fields: "io_err silent_platform = (\<lambda>w op. None)"
    "Start_res silent_platform = (\<lambda>w c. Inr 4242)"
    "setupOpt silent_platform = (\<lambda>c. c\<lparr>cmd_SysProcAttr := Some ''Setsid''\<rparr>)"
    by (simp_all add: silent_platform_def example_platform_def)
  define w1 where "w1 = snd (startProcess silent_platform ''go-filecoin'' ''daemon''
       ([''--cmdapiaddr='' @ fn_ApiPort example_filecoin, ''--swarmlisten=/ip4/127.0.0.1/tcp/0''] @ [])
       (fn_Dir example_filecoin) (FilecoinNode_envForDaemon silent_platform example_filecoin)
       example_world)"
  have ok: "startProcess silent_platform ''go-filecoin'' ''daemon''
       ([''--cmdapiaddr='' @ fn_ApiPort example_filecoin, ''--swarmlisten=/ip4/127.0.0.1/tcp/0''] @ [])
       (fn_Dir example_filecoin) (FilecoinNode_envForDaemon silent_platform example_filecoin)
       example_world = (Ok (), w1)"
    unfolding w1_def by (subst quiet_startProcess[OF fields])+ simp
  from ok FilecoinNode_Start_readiness[of silent_platform example_filecoin "[]" example_world w1]
  have "fst (FilecoinNode_Start silent_platform [] example_filecoin example_world) = Ok ()"
    by auto
  moreover have "fn_PeerID (fst (snd (FilecoinNode_Start silent_platform [] example_filecoin
      example_world))) = []"
    unfolding silent_Start by (simp add: example_filecoin_def)
  moreover have "drop 1 (trace (snd (snd (FilecoinNode_Start silent_platform [] example_filecoin
      example_world))))
       = EvSleep 100 #
         concat (replicate 10
           [EvRun [''go-filecoin'', ''id'', ''--format=<id>'']
              (FilecoinNode_envForDaemon silent_platform example_filecoin)
              (Some (ErrExternal ''exit status 1''), [], ''api not running''),
            EvSleep 100])"
    unfolding silent_Start by simp
  moreover have "fn_PeerID (fst (snd (FilecoinNode_Start example_platform [] example_filecoin
      example_world))) = ''QmNode''"
    unfolding example_FilecoinNode_Start by simp
  ultimately show ?thesis
    by simp
qed

subsection \<open>Shell\<close>

lemma Shell_loop_eq:
  "Shell_loop i nodes nenvs =
     (if \<exists>m\<in>set nodes. GetPeerID m = [] then Inl ErrCheckPeerID
      else Inr (nenvs @ map (\<lambda>(j, m). ''NODE'' @ digits j @ ''='' @ GetPeerID m)
                          (enumerate i nodes)))"
  by (induction nodes arbitrary: i nenvs) (auto simp: Let_def)

text \<open>
  Claim C8. When one of the nodes that \<open>LoadNodes\<close> returns has an empty peer
  identity, both \<open>Shell\<close> methods return an error and \<^verbatim>\<open>syscall.Exec\<close> is not
  reached. When every node has an identity and a shell is set, the shell is executed
  with the environment of the process followed by the data-directory variable of the
  node and one variable \<^verbatim>\<open>NODE<i>=<peer identity>\<close> per node, in the order of the
  registry and numbered from 0.
\<close>

theorem Shell_peer_identities:
  "(LoadNodes pf w = Inr nodes \<and> (\<exists>m\<in>set nodes. GetPeerID m = []) \<longrightarrow>
      LocalNode_Shell pf n w = Err (if Getenv pf ''SHELL'' = [] then ErrNoShell else ErrCheckPeerID)
      \<and> FilecoinNode_Shell pf fn w =
          Err (if Getenv pf ''SHELL'' = [] then ErrNoShell else ErrCheckPeerID))
   \<and> (LoadNodes pf w = Inr nodes \<and> (\<forall>m\<in>set nodes. GetPeerID m \<noteq> []) \<and>
       Getenv pf ''SHELL'' \<noteq> [] \<longrightarrow>
      LocalNode_Shell pf n w =
        Ok (Exec (Getenv pf ''SHELL'') [Getenv pf ''SHELL'']
              (Environ pf @ (''IPFS_PATH='' @ ln_Dir n) #
                 map (\<lambda>(j, m). ''NODE'' @ digits j @ ''='' @ GetPeerID m) (enumerate 0 nodes)))
      \<and> FilecoinNode_Shell pf fn w =
        Ok (Exec (Getenv pf ''SHELL'') [Getenv pf ''SHELL'']
              (Environ pf @ (''FIL_PATH='' @ fn_Dir fn) #
                 map (\<lambda>(j, m). ''NODE'' @ digits j @ ''='' @ GetPeerID m) (enumerate 0 nodes))))"
  by (simp add: LocalNode_Shell_def FilecoinNode_Shell_def Shell_loop_eq Let_def)

text \<open>The theorem on the two registries.\<close>

theorem Shell_peer_identities_witness:
  "LocalNode_Shell cluster_platform example_local example_world =
     Ok (Exec ''/bin/sh'' [''/bin/sh'']
           [''HOME=/root'', ''IPFS_PATH=/old'', ''FIL_API=1234'',
            ''IPFS_PATH=/nodes/0'', ''NODE0=QmA'', ''NODE1=QmB''])
   \<and> FilecoinNode_Shell unready_platform example_filecoin example_world = Err ErrCheckPeerID"
proof -
  define nodes where "nodes = [Local (example_local\<lparr>ln_PeerID := ''QmA''\<rparr>),
      Filecoin (example_filecoin\<lparr>fn_PeerID := ''QmB''\<rparr>)]"
  define nodes' where "nodes' = [Local (example_local\<lparr>ln_PeerID := ''QmA''\<rparr>),
      Filecoin example_filecoin]"
  have c: "LoadNodes cluster_platform example_world = Inr nodes"
    "Getenv cluster_platform ''SHELL'' = ''/bin/sh''"
    "Environ cluster_platform = [''HOME=/root'', ''IPFS_PATH=/old'', ''FIL_API=1234'']"
    by (simp_all add: cluster_platform_def example_platform_def nodes_def)
  have u: "LoadNodes unready_platform example_world = Inr nodes'"
    "Getenv unready_platform ''SHELL'' = ''/bin/sh''"
    by (simp_all add: unready_platform_def example_platform_def nodes'_def)
  have all: "\<forall>m\<in>set nodes. GetPeerID m \<noteq> []"
    by (simp add: nodes_def)
  have some: "\<exists>m\<in>set nodes'. GetPeerID m = []"
    by (simp add: nodes'_def example_filecoin_def)
  have "LocalNode_Shell cluster_platform example_local example_world =
        Ok (Exec ''/bin/sh'' [''/bin/sh'']
              ([''HOME=/root'', ''IPFS_PATH=/old'', ''FIL_API=1234''] @
                 (''IPFS_PATH='' @ ln_Dir example_local) #
                 map (\<lambda>(j, m). ''NODE'' @ digits j @ ''='' @ GetPeerID m) (enumerate 0 nodes)))"
    using Shell_peer_identities[of cluster_platform example_world nodes example_local] c all
    by simp
  moreover have "FilecoinNode_Shell unready_platform example_filecoin example_world
      = Err ErrCheckPeerID"
    using Shell_peer_identities[of unready_platform example_world nodes' _ example_filecoin] u some
    by simp
  ultimately show ?thesis
    by (simp add: nodes_def example_local_def digits.simps)
qed

subsection \<open>Polling\<close>

lemma polled_0 [simp]: "polled pid 0 w = w"
  by (simp add: polled_def polls_def)

lemma polled_Suc:
  "polled pid (Suc j) w =
     polled pid j (Sleep 10 (w\<lparr>trace := trace w @ [EvSignal pid Signal0 None]\<rparr>))"
  by (simp add: polled_def polls_def Sleep_def)

lemma gone_at_0: "gone_at pid 0 e w = w\<lparr>trace := trace w @ [EvSignal pid Signal0 (Some e)]\<rparr>"
  by (simp add: gone_at_def polls_def)

lemma gone_at_Suc:
  "gone_at pid (Suc j) e w =
     gone_at pid j e (Sleep 10 (w\<lparr>trace := trace w @ [EvSignal pid Signal0 None]\<rparr>))"
  by (simp add: gone_at_def polls_def Sleep_def)

lemma Signal_probe:
  "Signal pf pid Signal0 w =
     (Signal_err pf w pid Signal0,
      w\<lparr>trace := trace w @ [EvSignal pid Signal0 (Signal_err pf w pid Signal0)]\<rparr>)"
  by (simp add: Signal_def Let_def)

lemma waitProcess_loop_timeout:
  "(\<forall>i<k. Signal_err pf (polled pid i w) pid Signal0 = None) \<Longrightarrow>
     waitProcess_loop pf pid k w = (Some ErrTimedOut, polled pid k w)"
proof (induction k arbitrary: w)
  case 0
  show ?case by simp
next
  case (Suc k)
  from Suc.prems have alive: "Signal_err pf w pid Signal0 = None"
    by (metis polled_0 zero_less_Suc)
  define w2 where "w2 = Sleep 10 (w\<lparr>trace := trace w @ [EvSignal pid Signal0 None]\<rparr>)"
  have "\<forall>i<k. Signal_err pf (polled pid i w2) pid Signal0 = None"
    using Suc.prems by (simp add: w2_def polled_Suc[symmetric])
  from Suc.IH[OF this] show ?case
    by (simp add: Signal_probe alive w2_def polled_Suc)
qed

lemma waitProcess_loop_gone:
  "j < k \<Longrightarrow> (\<forall>i<j. Signal_err pf (polled pid i w) pid Signal0 = None) \<Longrightarrow>
     Signal_err pf (polled pid j w) pid Signal0 = Some e \<Longrightarrow>
     waitProcess_loop pf pid k w = (None, gone_at pid j e w)"
proof (induction k arbitrary: w j)
  case 0
  then show ?case by simp
next
  case (Suc k)
  show ?case
  proof (cases j)
    case 0
    with Suc.prems show ?thesis
      by (simp add: Signal_probe gone_at_0)
  next
    case (Suc j')
    from Suc.prems Suc have alive: "Signal_err pf w pid Signal0 = None"
      by (metis polled_0 zero_less_Suc)
    define w2 where "w2 = Sleep 10 (w\<lparr>trace := trace w @ [EvSignal pid Signal0 None]\<rparr>)"
    have a: "\<forall>i<j'. Signal_err pf (polled pid i w2) pid Signal0 = None"
      using Suc.prems(2) Suc by (simp add: w2_def polled_Suc[symmetric])
    have b: "Signal_err pf (polled pid j' w2) pid Signal0 = Some e"
      using Suc.prems(3) Suc by (simp add: w2_def polled_Suc)
    have "j' < k" using Suc.prems(1) Suc by simp
    from Suc.IH[OF this a b] show ?thesis
      by (simp add: Signal_probe alive w2_def gone_at_Suc Suc)
  qed
qed

lemma killPid_poll_gone:
  "(\<forall>i<j. Signal_err pf (polled pid i w) pid Signal0 = None) \<Longrightarrow>
     Signal_err pf (polled pid j w) pid Signal0 = Some e \<Longrightarrow>
     killPid_poll pf pid w = Some (gone_at pid j e w)"
proof (induction j arbitrary: w)
  case 0
  then show ?case
    by (subst killPid_poll.simps) (simp add: Signal_probe gone_at_0)
next
  case (Suc j)
  from Suc.prems have alive: "Signal_err pf w pid Signal0 = None"
    by (metis polled_0 zero_less_Suc)
  define w2 where "w2 = Sleep 10 (w\<lparr>trace := trace w @ [EvSignal pid Signal0 None]\<rparr>)"
  have a: "\<forall>i<j. Signal_err pf (polled pid i w2) pid Signal0 = None"
    using Suc.prems(1) by (simp add: w2_def polled_Suc[symmetric])
  have b: "Signal_err pf (polled pid j w2) pid Signal0 = Some e"
    using Suc.prems(2) by (simp add: w2_def polled_Suc)
  from Suc.IH[OF a b] show ?case
    by (subst killPid_poll.simps) (simp add: Signal_probe alive w2_def gone_at_Suc)
qed

text \<open>
  The unbounded loop returns exactly when some probe fails, in the world of the first
  probe that fails; when every probe finds the process alive it never returns.
\<close>

lemma killPid_poll_Some:
  assumes "killPid_poll pf pid w = Some w'"
  shows "\<exists>j e. (\<forall>i<j. Signal_err pf (polled pid i w) pid Signal0 = None) \<and>
           Signal_err pf (polled pid j w) pid Signal0 = Some e \<and> w' = gone_at pid j e w"
proof (rule killPid_poll.raw_induct[where P = "\<lambda>pf pid w w'.
    \<exists>j e. (\<forall>i<j. Signal_err pf (polled pid i w) pid Signal0 = None) \<and>
           Signal_err pf (polled pid j w) pid Signal0 = Some e \<and> w' = gone_at pid j e w"])
  show "killPid_poll pf pid w = Some w'" by fact
next
  fix poll :: "platform \<Rightarrow> int \<Rightarrow> world \<Rightarrow> world option" and pf pid w w'
  assume IH: "\<And>pf pid w y. poll pf pid w = Some y \<Longrightarrow>
      \<exists>j e. (\<forall>i<j. Signal_err pf (polled pid i w) pid Signal0 = None) \<and>
           Signal_err pf (polled pid j w) pid Signal0 = Some e \<and> y = gone_at pid j e w"
    and body: "(case Signal pf pid Signal0 w of
        (None, w1) \<Rightarrow> poll pf pid (Sleep 10 w1)
      | (Some err, w1) \<Rightarrow> Some w1) = Some w'"
  show "\<exists>j e. (\<forall>i<j. Signal_err pf (polled pid i w) pid Signal0 = None) \<and>
           Signal_err pf (polled pid j w) pid Signal0 = Some e \<and> w' = gone_at pid j e w"
  proof (cases "Signal_err pf w pid Signal0")
    case (Some e)
    with body have "w' = gone_at pid 0 e w"
      by (simp add: Signal_probe gone_at_0)
    with Some show ?thesis
      by (intro exI[of _ 0] exI[of _ e]) simp
  next
    case None
    define w2 where "w2 = Sleep 10 (w\<lparr>trace := trace w @ [EvSignal pid Signal0 None]\<rparr>)"
    from body None have "poll pf pid w2 = Some w'"
      by (simp add: Signal_probe w2_def)
    from IH[OF this] obtain j e where
      j: "\<forall>i<j. Signal_err pf (polled pid i w2) pid Signal0 = None"
         "Signal_err pf (polled pid j w2) pid Signal0 = Some e" "w' = gone_at pid j e w2"
      by (elim exE conjE) (rule that; assumption)
    have "\<forall>i<Suc j. Signal_err pf (polled pid i w) pid Signal0 = None"
    proof (intro allI impI)
      fix i assume "i < Suc j"
      then show "Signal_err pf (polled pid i w) pid Signal0 = None"
        using None j(1) by (cases i) (simp_all add: polled_Suc w2_def)
    qed
    moreover have "Signal_err pf (polled pid (Suc j) w) pid Signal0 = Some e"
      using j(2) by (simp add: polled_Suc w2_def)
    moreover have "w' = gone_at pid (Suc j) e w"
      using j(3) by (simp add: gone_at_Suc w2_def)
    ultimately show ?thesis by (intro exI[of _ "Suc j"] exI[of _ e]) simp
  qed
qed

lemma first_gone:
  assumes "Signal_err pf (polled pid m w) pid Signal0 \<noteq> None"
  obtains j e where "j \<le> m" "\<forall>i<j. Signal_err pf (polled pid i w) pid Signal0 = None"
    "Signal_err pf (polled pid j w) pid Signal0 = Some e"
proof -
  define P where "P = (\<lambda>i. Signal_err pf (polled pid i w) pid Signal0 \<noteq> None)"
  define j where "j = (LEAST i. P i)"
  have "P m" using assms by (simp add: P_def)
  then have Pj: "P j" and le: "j \<le> m"
    unfolding j_def by (rule LeastI, rule Least_le)
  have before: "\<forall>i<j. \<not> P i"
    unfolding j_def using not_less_Least by blast
  from Pj obtain e where a: "Signal_err pf (polled pid j w) pid Signal0 = Some e"
    unfolding P_def by (cases "Signal_err pf (polled pid j w) pid Signal0") simp_all
  from before have b: "\<forall>i<j. Signal_err pf (polled pid i w) pid Signal0 = None"
    unfolding P_def by simp
  show ?thesis by (rule that[OF le b a])
qed

lemma waitProcess_loop_cases:
  "(\<exists>j<k. \<exists>e. waitProcess_loop pf pid k w = (None, gone_at pid j e w))
   \<or> waitProcess_loop pf pid k w = (Some ErrTimedOut, polled pid k w)"
proof (cases "\<forall>i<k. Signal_err pf (polled pid i w) pid Signal0 = None")
  case True
  then show ?thesis by (simp add: waitProcess_loop_timeout)
next
  case False
  then obtain m where m: "m < k" "Signal_err pf (polled pid m w) pid Signal0 \<noteq> None"
    by blast
  from first_gone[OF m(2)] obtain j e where
    j: "j \<le> m" "\<forall>i<j. Signal_err pf (polled pid i w) pid Signal0 = None"
      "Signal_err pf (polled pid j w) pid Signal0 = Some e"
    by blast
  have "j < k" using j(1) m(1) by simp
  from waitProcess_loop_gone[OF this j(2,3)] \<open>j < k\<close> show ?thesis by blast
qed

lemma killPid_poll_returns:
  assumes "\<exists>m. Signal_err pf (polled pid m w) pid Signal0 \<noteq> None"
  shows "killPid_poll pf pid w \<noteq> None"
proof -
  from assms obtain m where "Signal_err pf (polled pid m w) pid Signal0 \<noteq> None" ..
  from first_gone[OF this] obtain j e where
    "\<forall>i<j. Signal_err pf (polled pid i w) pid Signal0 = None"
    "Signal_err pf (polled pid j w) pid Signal0 = Some e"
    by blast
  from killPid_poll_gone[OF this] show ?thesis by simp
qed


lemma killPid_body_escalation:
  "killPid_body pf pid dir w = escalation_spec pf pid dir kill_stages w"
  unfolding killPid_body_def kill_stages_def escalation_spec.simps ..

subsection \<open>Shutdown escalator\<close>

lemma Signal_eq:
  "Signal pf pid s w =
     (Signal_err pf w pid s, w\<lparr>trace := trace w @ [EvSignal pid s (Signal_err pf w pid s)]\<rparr>)"
  by (simp add: Signal_def Let_def)

lemma timed_out_Nil [simp]: "timed_out pid [] = []"
  by (simp add: timed_out_def)

lemma timed_out_Cons:
  "timed_out pid ((s, ms) # stages) = EvSignal pid s None # polls pid (ms div 10) @ timed_out pid stages"
  by (simp add: timed_out_def)

lemma stage_signal_0 [simp]: "stage_signal [] 0 = SIGKILL" "stage_signal ((s, ms) # stages) 0 = s"
  by (simp_all add: stage_signal_def)

lemma stage_signal_Suc [simp]: "stage_signal (st # stages) (Suc n) = stage_signal stages n"
  by (simp add: stage_signal_def)

lemma escalation_shape:
  "escalation_spec pf pid dir stages w = Some (r, w') \<Longrightarrow>
     files w' = files w \<and>
     (\<exists>n e. n \<le> length stages \<and>
        ((r = Err (ErrKillingDaemon dir e) \<and>
          trace w' = trace w @ timed_out pid (take n stages) @
                       [EvSignal pid (stage_signal stages n) (Some e)])
         \<or> (r = Ok () \<and>
             (\<exists>j. (n < length stages \<longrightarrow> j < snd (stages ! n) div 10) \<and>
                  trace w' = trace w @ timed_out pid (take n stages) @
                    EvSignal pid (stage_signal stages n) None # polls pid j @
                    [EvSignal pid Signal0 (Some e)]))))"
proof (induction stages arbitrary: w)
  case Nil
  show ?case
  proof (cases "Signal_err pf w pid SIGKILL")
    case (Some e)
    with Nil have "r = Err (ErrKillingDaemon dir e)"
      "w' = w\<lparr>trace := trace w @ [EvSignal pid SIGKILL (Some e)]\<rparr>"
      by (simp_all add: Signal_eq)
    then show ?thesis
      by (intro conjI exI[of _ 0] exI[of _ e]) simp_all
  next
    case None
    define w1 where "w1 = w\<lparr>trace := trace w @ [EvSignal pid SIGKILL None]\<rparr>"
    from Nil None have r: "r = Ok ()" and poll: "killPid_poll pf pid w1 = Some w'"
      by (auto simp: Signal_eq w1_def split: option.splits)
    from killPid_poll_Some[OF poll] obtain j e where "w' = gone_at pid j e w1"
      by (elim exE conjE) (rule that)
    then have "files w' = files w"
      "trace w' = trace w @ EvSignal pid SIGKILL None # polls pid j @ [EvSignal pid Signal0 (Some e)]"
      by (simp_all add: gone_at_def w1_def)
    with r show ?thesis
      by (intro conjI exI[of _ 0] exI[of _ e]) auto
  qed
next
  case (Cons st stages)
  obtain s ms where st: "st = (s, ms)" by (cases st)
  show ?case
  proof (cases "Signal_err pf w pid s")
    case (Some e)
    with Cons.prems st have "r = Err (ErrKillingDaemon dir e)"
      "w' = w\<lparr>trace := trace w @ [EvSignal pid s (Some e)]\<rparr>"
      by (simp_all add: Signal_eq)
    then show ?thesis
      unfolding st by (intro conjI exI[of _ 0] exI[of _ e]) simp_all
  next
    case None
    define w1 where "w1 = w\<lparr>trace := trace w @ [EvSignal pid s None]\<rparr>"
    have esc: "escalation_spec pf pid dir (st # stages) w =
        (case waitProcess_loop pf pid (ms div 10) w1 of
           (None, w2) \<Rightarrow> Some (Ok (), w2)
         | (Some timeout, w2) \<Rightarrow> escalation_spec pf pid dir stages w2)"
      using None by (simp add: st Signal_eq w1_def waitProcess_def)
    from waitProcess_loop_cases[of "ms div 10" pf pid w1]
    show ?thesis
    proof (elim disjE exE conjE)
      fix j e
      assume j: "j < ms div 10"
        and gone: "waitProcess_loop pf pid (ms div 10) w1 = (None, gone_at pid j e w1)"
      from Cons.prems esc gone have "r = Ok ()" "w' = gone_at pid j e w1"
        by simp_all
      then have "r = Ok ()" "files w' = files w"
        "trace w' = trace w @ EvSignal pid s None # polls pid j @ [EvSignal pid Signal0 (Some e)]"
        by (simp_all add: gone_at_def w1_def)
      with j show ?thesis
        unfolding st by (intro conjI exI[of _ 0] exI[of _ e]) auto
    next
      assume "waitProcess_loop pf pid (ms div 10) w1 = (Some ErrTimedOut, polled pid (ms div 10) w1)"
      with Cons.prems esc
      have rest: "escalation_spec pf pid dir stages (polled pid (ms div 10) w1) = Some (r, w')"
        by simp
      have tr2: "trace (polled pid (ms div 10) w1) = trace w @ timed_out pid [(s, ms)]"
        "files (polled pid (ms div 10) w1) = files w"
        by (simp_all add: polled_def w1_def timed_out_Cons)
      from Cons.IH[OF rest] obtain n e where
        fs: "files w' = files w" and n: "n \<le> length stages" and
        sh: "(r = Err (ErrKillingDaemon dir e) \<and>
          trace w' = trace w @ timed_out pid [(s, ms)] @ timed_out pid (take n stages) @
                       [EvSignal pid (stage_signal stages n) (Some e)])
         \<or> (r = Ok () \<and>
             (\<exists>j. (n < length stages \<longrightarrow> j < snd (stages ! n) div 10) \<and>
                  trace w' = trace w @ timed_out pid [(s, ms)] @ timed_out pid (take n stages) @
                    EvSignal pid (stage_signal stages n) None # polls pid j @
                    [EvSignal pid Signal0 (Some e)]))"
        unfolding tr2 by (elim exE conjE) (rule that; simp)
      have app: "timed_out pid [(s, ms)] @ timed_out pid (take n stages)
          = timed_out pid (take (Suc n) (st # stages))"
        by (simp add: st timed_out_Cons)
      from sh have "(r = Err (ErrKillingDaemon dir e) \<and>
          trace w' = trace w @ timed_out pid (take (Suc n) (st # stages)) @
                       [EvSignal pid (stage_signal (st # stages) (Suc n)) (Some e)])
         \<or> (r = Ok () \<and>
             (\<exists>j. (Suc n < length (st # stages) \<longrightarrow> j < snd ((st # stages) ! Suc n) div 10) \<and>
                  trace w' = trace w @ timed_out pid (take (Suc n) (st # stages)) @
                    EvSignal pid (stage_signal (st # stages) (Suc n)) None # polls pid j @
                    [EvSignal pid Signal0 (Some e)]))"
        unfolding app[symmetric] by simp
      with fs n show ?thesis
        by (intro conjI exI[of _ "Suc n"] exI[of _ e]) simp_all
    qed
  qed
qed

text \<open>
  The two \<^verbatim>\<open>Kill\<close> methods read the process identifier from the PID file with
  \<^verbatim>\<open>getPID\<close> and pass it to \<^verbatim>\<open>killPid\<close>; without a PID file they return the
  not-exist error in an unchanged world, so no signal is sent.
\<close>

lemma Kill_killPid:
  assumes "getPID pf dir w = Ok pid"
  shows "ln_Dir n = dir \<Longrightarrow> LocalNode_Kill pf n w = killPid pf pid dir w"
    and "fn_Dir fn = dir \<Longrightarrow> FilecoinNode_Kill pf fn w = killPid pf pid dir w"
  using assms by (simp_all add: LocalNode_Kill_def FilecoinNode_Kill_def)

lemma Kill_without_pid_file:
  assumes "io_err pf w (OpRead (Join dir ''daemon.pid'')) = None"
    "files w (Join dir ''daemon.pid'') = None"
  shows "ln_Dir n = dir \<Longrightarrow>
           LocalNode_Kill pf n w = Some (Err (ErrKillingDaemon dir ErrNotExist), w)"
    and "fn_Dir fn = dir \<Longrightarrow> FilecoinNode_Kill pf fn w = Some (Err ErrNotExist, w)"
  using assms by (simp_all add: LocalNode_Kill_def FilecoinNode_Kill_def getPID_cases)

subsection \<open>Stages of a kill\<close>

lemma alive_for_iff:
  "alive_for pf pid k w \<longleftrightarrow> (\<forall>i<k. Signal_err pf (polled pid i w) pid Signal0 = None)"
  by (auto simp: alive_for_def)

lemma stages_timed_out_0 [simp]: "stages_timed_out pf pid 0 w"
  by (simp add: stages_timed_out_def)

lemma stages_timed_out_Suc:
  "stages_timed_out pf pid (Suc n) w \<longleftrightarrow>
     stages_timed_out pf pid n w \<and>
     Signal_err pf (escalated pid n w) pid (kill_signal n) = None \<and>
     alive_for pf pid (stage_polls n) (signalled pid n None w)"
  by (auto simp: stages_timed_out_def less_Suc_eq)

lemma escalated_0: "escalated pid 0 w = w"
  by (simp add: escalated_def)

lemma signalled_eq:
  "signalled pid n r w =
     (escalated pid n w)\<lparr>trace := trace (escalated pid n w) @ [EvSignal pid (kill_signal n) r]\<rparr>"
  by (simp add: signalled_def escalated_def)

lemma stage_cases: "n < 3 \<Longrightarrow> n = 0 \<or> n = 1 \<or> n = (2::nat)"
  by arith

lemma drop_stage:
  "n < 3 \<Longrightarrow> drop n kill_stages = (kill_signal n, 10 * stage_polls n) # drop (Suc n) kill_stages"
  by (drule stage_cases) (auto simp: kill_stages_def kill_signal_def stage_polls_def)

lemma drop_stages_all: "drop 3 kill_stages = []"
  by (simp add: kill_stages_def)

lemma kill_signal_3: "kill_signal 3 = SIGKILL"
  by (simp add: kill_signal_def)

lemma escalated_Suc:
  "n < 3 \<Longrightarrow> escalated pid (Suc n) w =
     (escalated pid n w)\<lparr>trace := trace (escalated pid n w) @
        timed_out pid [(kill_signal n, 10 * stage_polls n)]\<rparr>"
  by (drule stage_cases)
    (auto simp: escalated_def kill_stages_def kill_signal_def stage_polls_def timed_out_def)

lemma escalation_undelivered:
  "Signal_err pf w pid s = Some e \<Longrightarrow>
     escalation_spec pf pid dir ((s, ms) # stages) w =
       Some (Err (ErrKillingDaemon dir e), w\<lparr>trace := trace w @ [EvSignal pid s (Some e)]\<rparr>)"
  by (simp add: Signal_eq)

lemma escalation_kill_undelivered:
  "Signal_err pf w pid SIGKILL = Some e \<Longrightarrow>
     escalation_spec pf pid dir [] w =
       Some (Err (ErrKillingDaemon dir e), w\<lparr>trace := trace w @ [EvSignal pid SIGKILL (Some e)]\<rparr>)"
  by (simp add: Signal_eq)

lemma escalation_gone:
  assumes "Signal_err pf w pid s = None" "j < ms div 10"
    "\<forall>i<j. Signal_err pf (polled pid i (w\<lparr>trace := trace w @ [EvSignal pid s None]\<rparr>)) pid Signal0 = None"
    "Signal_err pf (polled pid j (w\<lparr>trace := trace w @ [EvSignal pid s None]\<rparr>)) pid Signal0 = Some e"
  shows "escalation_spec pf pid dir ((s, ms) # stages) w =
     Some (Ok (), gone_at pid j e (w\<lparr>trace := trace w @ [EvSignal pid s None]\<rparr>))"
  using assms(1) waitProcess_loop_gone[OF assms(2,3,4)]
  by (simp add: Signal_eq waitProcess_def)

lemma escalation_timed_out:
  assumes "Signal_err pf w pid s = None"
    "\<forall>i<ms div 10. Signal_err pf (polled pid i (w\<lparr>trace := trace w @ [EvSignal pid s None]\<rparr>))
        pid Signal0 = None"
  shows "escalation_spec pf pid dir ((s, ms) # stages) w =
     escalation_spec pf pid dir stages (w\<lparr>trace := trace w @ timed_out pid [(s, ms)]\<rparr>)"
  using assms(1) waitProcess_loop_timeout[OF assms(2)]
  by (simp add: Signal_eq waitProcess_def polled_def timed_out_Cons)

lemma escalation_killed:
  assumes "Signal_err pf w pid SIGKILL = None"
    "\<forall>i<j. Signal_err pf (polled pid i (w\<lparr>trace := trace w @ [EvSignal pid SIGKILL None]\<rparr>)) pid Signal0 = None"
    "Signal_err pf (polled pid j (w\<lparr>trace := trace w @ [EvSignal pid SIGKILL None]\<rparr>)) pid Signal0 = Some e"
  shows "escalation_spec pf pid dir [] w =
     Some (Ok (), gone_at pid j e (w\<lparr>trace := trace w @ [EvSignal pid SIGKILL None]\<rparr>))"
  using assms(1) killPid_poll_gone[OF assms(2,3)]
  by (simp add: Signal_eq)


declare escalation_spec.simps [simp del]

text \<open>
  While the stages time out, the body of \<^verbatim>\<open>killPid\<close> is at the signal of the next
  stage.
\<close>

lemma killPid_body_stage:
  "n \<le> 3 \<Longrightarrow> stages_timed_out pf pid n w \<Longrightarrow>
     killPid_body pf pid dir w = escalation_spec pf pid dir (drop n kill_stages) (escalated pid n w)"
proof (induction n)
  case 0
  show ?case by (simp add: killPid_body_escalation escalated_0)
next
  case (Suc n)
  from Suc.prems have n: "n < 3" and before: "stages_timed_out pf pid n w"
    and delivered: "Signal_err pf (escalated pid n w) pid (kill_signal n) = None"
    and alive: "alive_for pf pid (stage_polls n) (signalled pid n None w)"
    by (simp_all add: stages_timed_out_Suc)
  from n before have "killPid_body pf pid dir w =
      escalation_spec pf pid dir (drop n kill_stages) (escalated pid n w)"
    by (intro Suc.IH) simp_all
  also have "\<dots> = escalation_spec pf pid dir
      ((kill_signal n, 10 * stage_polls n) # drop (Suc n) kill_stages) (escalated pid n w)"
    by (simp add: drop_stage[OF n])
  also have "\<dots> = escalation_spec pf pid dir (drop (Suc n) kill_stages)
      ((escalated pid n w)\<lparr>trace := trace (escalated pid n w) @
          timed_out pid [(kill_signal n, 10 * stage_polls n)]\<rparr>)"
    using alive by (intro escalation_timed_out[OF delivered]) (simp add: alive_for_iff signalled_eq)
  finally show ?case
    by (simp add: escalated_Suc[OF n])
qed

text \<open>The three ways in which the body goes on from there.\<close>

lemma killPid_body_undelivered:
  assumes "n \<le> 3" "stages_timed_out pf pid n w"
    "Signal_err pf (escalated pid n w) pid (kill_signal n) = Some e"
  shows "killPid_body pf pid dir w =
     Some (Err (ErrKillingDaemon dir e), signalled pid n (Some e) w)"
proof (cases "n < 3")
  case True
  show ?thesis
    unfolding killPid_body_stage[OF assms(1,2)] drop_stage[OF True] signalled_eq
    by (rule escalation_undelivered) (rule assms(3))
next
  case False
  with assms(1) have n: "n = 3" by simp
  show ?thesis
    using assms(3) unfolding killPid_body_stage[OF assms(1,2)] signalled_eq
    unfolding n drop_stages_all kill_signal_3
    by (rule escalation_kill_undelivered)
qed

lemma killPid_body_gone:
  assumes "n \<le> 3" "stages_timed_out pf pid n w"
    "Signal_err pf (escalated pid n w) pid (kill_signal n) = None"
    "n < 3 \<longrightarrow> j < stage_polls n"
    "alive_for pf pid j (signalled pid n None w)"
    "Signal_err pf (polled pid j (signalled pid n None w)) pid Signal0 = Some e"
  shows "killPid_body pf pid dir w = Some (Ok (), gone_at pid j e (signalled pid n None w))"
proof (cases "n < 3")
  case True
  with assms(4) have j: "j < 10 * stage_polls n div 10" by simp
  show ?thesis
    using assms(5,6)
    unfolding killPid_body_stage[OF assms(1,2)] drop_stage[OF True] signalled_eq alive_for_iff
    by (intro escalation_gone[OF assms(3) j])
next
  case False
  with assms(1) have n: "n = 3" by simp
  show ?thesis
    using assms(3,5,6) unfolding killPid_body_stage[OF assms(1,2)] signalled_eq alive_for_iff
    unfolding n drop_stages_all kill_signal_3
    by (intro escalation_killed)
qed


text \<open>
  The deferred removal after the body: \<^verbatim>\<open>killPid\<close> panics when the platform reports
  a failure of the removal, and otherwise returns what the body returned, with the PID
  file gone.
\<close>

lemma killPid_after_body:
  assumes "FindProcess_err pf pid = None" "killPid_body pf pid dir w = Some (r, wb)"
  shows "killPid pf pid dir w =
     Some (case io_err pf wb (OpRemove (Join dir ''daemon.pid'')) of
             Some x \<Rightarrow> (Panic (ErrRemovingPidFile dir (SyscallError x)), wb)
           | None \<Rightarrow> (r, wb\<lparr>files := (files wb)(Join dir ''daemon.pid'' := None)\<rparr>))"
proof (cases "io_err pf wb (OpRemove (Join dir ''daemon.pid''))")
  case (Some x)
  with assms show ?thesis
    by (simp add: killPid_def killPid_deferred_def Remove_def IsNotExist_def)
next
  case None
  show ?thesis
  proof (cases "files wb (Join dir ''daemon.pid'')")
    case absent: None
    then have "wb\<lparr>files := (files wb)(Join dir ''daemon.pid'' := None)\<rparr> = wb"
      by (simp add: fun_upd_idem)
    with assms None absent show ?thesis
      by (simp add: killPid_def killPid_deferred_def Remove_def IsNotExist_def)
  next
    case (Some b)
    with assms None show ?thesis
      by (simp add: killPid_def killPid_deferred_def Remove_def IsNotExist_def)
  qed
qed




text \<open>
  Claim C2, as the code has it. Without a process handle \<^verbatim>\<open>killPid\<close> returns the
  error and leaves the world as it is. The removal of the PID file is deferred right
  after the handle is obtained, so it runs on every return from there on, in the world
  that has the files of the start and the log of the end. When the platform reports no
  failure of the removal, the PID file is gone afterwards, every other file is as
  before, and the result is nil or the error of a signal that could not be delivered.
  When the platform reports a failure, the files are as before and the result is the
  panic that carries this failure. The last part says that these returns do happen, at
  every stage \<open>n\<close> of the kill: after a signal that cannot be delivered, and after a
  probe that finds the process gone, \<^verbatim>\<open>killPid\<close> returns, with the PID file removed
  unless the removal fails.
\<close>

theorem killPid_removes_pid_file:
  "(\<forall>e. FindProcess_err pf pid = Some e \<longrightarrow>
       killPid pf pid dir w = Some (Err (ErrKillingDaemon dir e), w))
   \<and> (FindProcess_err pf pid = None \<and> killPid pf pid dir w = Some (r, w') \<longrightarrow>
        (io_err pf (w'\<lparr>files := files w\<rparr>) (OpRemove (Join dir ''daemon.pid'')) = None \<longrightarrow>
           files w' = (files w)(Join dir ''daemon.pid'' := None) \<and>
           (r = Ok () \<or> (\<exists>e. r = Err (ErrKillingDaemon dir e))))
        \<and> (\<forall>x. io_err pf (w'\<lparr>files := files w\<rparr>) (OpRemove (Join dir ''daemon.pid'')) = Some x \<longrightarrow>
             files w' = files w \<and> r = Panic (ErrRemovingPidFile dir (SyscallError x))))
   \<and> (FindProcess_err pf pid = None \<and> n \<le> 3 \<and> stages_timed_out pf pid n w \<longrightarrow>
        (\<forall>e. Signal_err pf (escalated pid n w) pid (kill_signal n) = Some e \<longrightarrow>
           killPid pf pid dir w =
             Some (case io_err pf (signalled pid n (Some e) w)
                          (OpRemove (Join dir ''daemon.pid'')) of
                     None \<Rightarrow>
                       (Err (ErrKillingDaemon dir e),
                        (signalled pid n (Some e) w)
                          \<lparr>files := (files w)(Join dir ''daemon.pid'' := None)\<rparr>)
                   | Some x \<Rightarrow>
                       (Panic (ErrRemovingPidFile dir (SyscallError x)),
                        signalled pid n (Some e) w)))
        \<and> (\<forall>j e. Signal_err pf (escalated pid n w) pid (kill_signal n) = None \<and>
               (n < 3 \<longrightarrow> j < stage_polls n) \<and>
               alive_for pf pid j (signalled pid n None w) \<and>
               Signal_err pf (polled pid j (signalled pid n None w)) pid Signal0 = Some e \<longrightarrow>
           killPid pf pid dir w =
             Some (case io_err pf (gone_at pid j e (signalled pid n None w))
                          (OpRemove (Join dir ''daemon.pid'')) of
                     None \<Rightarrow>
                       (Ok (),
                        (gone_at pid j e (signalled pid n None w))
                          \<lparr>files := (files w)(Join dir ''daemon.pid'' := None)\<rparr>)
                   | Some x \<Rightarrow>
                       (Panic (ErrRemovingPidFile dir (SyscallError x)),
                        gone_at pid j e (signalled pid n None w)))))"
proof -
  have ret: "(io_err pf (w'\<lparr>files := files w\<rparr>) (OpRemove (Join dir ''daemon.pid'')) = None \<longrightarrow>
           files w' = (files w)(Join dir ''daemon.pid'' := None) \<and>
           (r = Ok () \<or> (\<exists>e. r = Err (ErrKillingDaemon dir e))))
        \<and> (\<forall>x. io_err pf (w'\<lparr>files := files w\<rparr>) (OpRemove (Join dir ''daemon.pid'')) = Some x \<longrightarrow>
             files w' = files w \<and> r = Panic (ErrRemovingPidFile dir (SyscallError x)))"
    if a: "FindProcess_err pf pid = None \<and> killPid pf pid dir w = Some (r, w')"
  proof -
    from a obtain rb wb where body: "killPid_body pf pid dir w = Some (rb, wb)"
      by (cases "killPid_body pf pid dir w") (auto simp: killPid_def)
    from body have "escalation_spec pf pid dir kill_stages w = Some (rb, wb)"
      by (simp add: killPid_body_escalation)
    from escalation_shape[OF this]
    have fs: "files wb = files w" and rb: "rb = Ok () \<or> (\<exists>e. rb = Err (ErrKillingDaemon dir e))"
      by auto
    from killPid_after_body[OF _ body] a
    have run: "(r, w') =
       (case io_err pf wb (OpRemove (Join dir ''daemon.pid'')) of
          Some x \<Rightarrow> (Panic (ErrRemovingPidFile dir (SyscallError x)), wb)
        | None \<Rightarrow> (rb, wb\<lparr>files := (files wb)(Join dir ''daemon.pid'' := None)\<rparr>))"
      by simp
    have wb: "w'\<lparr>files := files w\<rparr> = wb"
      using run fs by (cases "io_err pf wb (OpRemove (Join dir ''daemon.pid''))") auto
    show ?thesis
      using run rb fs unfolding wb
      by (cases "io_err pf wb (OpRemove (Join dir ''daemon.pid''))") auto
  qed
  have undelivered: "killPid pf pid dir w =
      Some (case io_err pf (signalled pid n (Some e) w) (OpRemove (Join dir ''daemon.pid'')) of
              None \<Rightarrow>
                (Err (ErrKillingDaemon dir e),
                 (signalled pid n (Some e) w)
                   \<lparr>files := (files w)(Join dir ''daemon.pid'' := None)\<rparr>)
            | Some x \<Rightarrow>
                (Panic (ErrRemovingPidFile dir (SyscallError x)), signalled pid n (Some e) w))"
    if a: "FindProcess_err pf pid = None \<and> n \<le> 3 \<and> stages_timed_out pf pid n w"
      and e: "Signal_err pf (escalated pid n w) pid (kill_signal n) = Some e" for e
  proof -
    from a e have "killPid_body pf pid dir w =
        Some (Err (ErrKillingDaemon dir e), signalled pid n (Some e) w)"
      by (intro killPid_body_undelivered) simp_all
    from killPid_after_body[OF _ this] a show ?thesis
      by (cases "io_err pf (signalled pid n (Some e) w) (OpRemove (Join dir ''daemon.pid''))")
        (simp_all add: signalled_def)
  qed
  have gone: "killPid pf pid dir w =
      Some (case io_err pf (gone_at pid j e (signalled pid n None w))
                   (OpRemove (Join dir ''daemon.pid'')) of
              None \<Rightarrow>
                (Ok (),
                 (gone_at pid j e (signalled pid n None w))
                   \<lparr>files := (files w)(Join dir ''daemon.pid'' := None)\<rparr>)
            | Some x \<Rightarrow>
                (Panic (ErrRemovingPidFile dir (SyscallError x)),
                 gone_at pid j e (signalled pid n None w)))"
    if a: "FindProcess_err pf pid = None \<and> n \<le> 3 \<and> stages_timed_out pf pid n w"
      and g: "Signal_err pf (escalated pid n w) pid (kill_signal n) = None \<and>
               (n < 3 \<longrightarrow> j < stage_polls n) \<and>
               alive_for pf pid j (signalled pid n None w) \<and>
               Signal_err pf (polled pid j (signalled pid n None w)) pid Signal0 = Some e" for j e
  proof -
    from a g have "killPid_body pf pid dir w =
        Some (Ok (), gone_at pid j e (signalled pid n None w))"
      by (intro killPid_body_gone) simp_all
    from killPid_after_body[OF _ this] a show ?thesis
      by (cases "io_err pf (gone_at pid j e (signalled pid n None w))
                   (OpRemove (Join dir ''daemon.pid''))")
        (simp_all add: signalled_def gone_at_def)
  qed
  show ?thesis
  proof (intro conjI)
    show "\<forall>e. FindProcess_err pf pid = Some e \<longrightarrow>
       killPid pf pid dir w = Some (Err (ErrKillingDaemon dir e), w)"
      by (simp add: killPid_def)
  next
    show "FindProcess_err pf pid = None \<and> killPid pf pid dir w = Some (r, w') \<longrightarrow>
        (io_err pf (w'\<lparr>files := files w\<rparr>) (OpRemove (Join dir ''daemon.pid'')) = None \<longrightarrow>
           files w' = (files w)(Join dir ''daemon.pid'' := None) \<and>
           (r = Ok () \<or> (\<exists>e. r = Err (ErrKillingDaemon dir e))))
        \<and> (\<forall>x. io_err pf (w'\<lparr>files := files w\<rparr>) (OpRemove (Join dir ''daemon.pid'')) = Some x \<longrightarrow>
             files w' = files w \<and> r = Panic (ErrRemovingPidFile dir (SyscallError x)))"
      by (rule impI) (rule ret)
  next
    show "FindProcess_err pf pid = None \<and> n \<le> 3 \<and> stages_timed_out pf pid n w \<longrightarrow>
        (\<forall>e. Signal_err pf (escalated pid n w) pid (kill_signal n) = Some e \<longrightarrow>
           killPid pf pid dir w =
             Some (case io_err pf (signalled pid n (Some e) w)
                          (OpRemove (Join dir ''daemon.pid'')) of
                     None \<Rightarrow>
                       (Err (ErrKillingDaemon dir e),
                        (signalled pid n (Some e) w)
                          \<lparr>files := (files w)(Join dir ''daemon.pid'' := None)\<rparr>)
                   | Some x \<Rightarrow>
                       (Panic (ErrRemovingPidFile dir (SyscallError x)),
                        signalled pid n (Some e) w)))
        \<and> (\<forall>j e. Signal_err pf (escalated pid n w) pid (kill_signal n) = None \<and>
               (n < 3 \<longrightarrow> j < stage_polls n) \<and>
               alive_for pf pid j (signalled pid n None w) \<and>
               Signal_err pf (polled pid j (signalled pid n None w)) pid Signal0 = Some e \<longrightarrow>
           killPid pf pid dir w =
             Some (case io_err pf (gone_at pid j e (signalled pid n None w))
                          (OpRemove (Join dir ''daemon.pid'')) of
                     None \<Rightarrow>
                       (Ok (),
                        (gone_at pid j e (signalled pid n None w))
                          \<lparr>files := (files w)(Join dir ''daemon.pid'' := None)\<rparr>)
                   | Some x \<Rightarrow>
                       (Panic (ErrRemovingPidFile dir (SyscallError x)),
                        gone_at pid j e (signalled pid n None w))))"
      by (intro impI conjI allI) (erule (1) undelivered, erule (1) gone)
  qed
qed

subsection \<open>Kills that run\<close>

lemma running_world_fields:
  "files running_world (Join ''/nodes/0'' ''daemon.pid'') = Some ''4242''"
  "trace running_world = []"
  by (simp_all add: running_world_def)

lemma kill_signals:
  "kill_signal 0 = SIGINT" "kill_signal (Suc 0) = SIGINT" "kill_signal 2 = SIGQUIT"
  "kill_signal 3 = SIGKILL"
  by (simp_all add: kill_signal_def)


text \<open>The process that is gone before the first signal.\<close>

lemma gone_platform_fields:
  "FindProcess_err gone_platform = (\<lambda>pid. None)"
  "Signal_err gone_platform = (\<lambda>w pid s. Some (SyscallError ESRCH))"
  "io_err gone_platform = (\<lambda>w op. None)"
  by (simp_all add: gone_platform_def example_platform_def)

lemma gone_killPid:
  "killPid gone_platform 4242 ''/nodes/0'' running_world =
     Some (Err (ErrKillingDaemon ''/nodes/0'' (SyscallError ESRCH)),
           \<lparr>files = (files running_world)(Join ''/nodes/0'' ''daemon.pid'' := None),
            trace = [EvSignal 4242 SIGINT (Some (SyscallError ESRCH))]\<rparr>)"
proof -
  have "killPid_body gone_platform 4242 ''/nodes/0'' running_world =
      Some (Err (ErrKillingDaemon ''/nodes/0'' (SyscallError ESRCH)),
            signalled 4242 0 (Some (SyscallError ESRCH)) running_world)"
    by (intro killPid_body_undelivered) (simp_all add: gone_platform_fields)
  from killPid_after_body[OF _ this] show ?thesis
    by (simp add: gone_platform_fields signalled_def kill_signals running_world_def)
qed

text \<open>
  The cooperative process: the first interrupt is delivered, two probes find the process
  alive and the third finds it gone.
\<close>

lemma cooperative_stage:
  assumes "Signal_err pf = (\<lambda>w pid s.
         if s = Signal0 \<and> 5 \<le> length (trace w) then Some (SyscallError ESRCH) else None)"
  shows "Signal_err pf (escalated 4242 0 running_world) 4242 (kill_signal 0) = None"
    and "2 < stage_polls 0"
    and "alive_for pf 4242 2 (signalled 4242 0 None running_world)"
    and "Signal_err pf (polled 4242 2 (signalled 4242 0 None running_world)) 4242 Signal0
           = Some (SyscallError ESRCH)"
  by (simp_all add: assms escalated_def signalled_def polled_def polls_def alive_for_iff
      kill_signals stage_polls_def kill_stages_def running_world_fields less_Suc_eq
      numeral_2_eq_2)


lemma cooperative_platform_fields:
  "FindProcess_err cooperative_platform = (\<lambda>pid. None)"
  "Signal_err cooperative_platform = (\<lambda>w pid s.
         if s = Signal0 \<and> 5 \<le> length (trace w) then Some (SyscallError ESRCH) else None)"
  "io_err cooperative_platform = (\<lambda>w op. None)"
  by (simp_all add: cooperative_platform_def example_platform_def)

lemma undeletable_platform_fields:
  "FindProcess_err undeletable_platform = (\<lambda>pid. None)"
  "Signal_err undeletable_platform = (\<lambda>w pid s.
         if s = Signal0 \<and> 5 \<le> length (trace w) then Some (SyscallError ESRCH) else None)"
  "io_err undeletable_platform = (\<lambda>w op. case op of OpRemove p \<Rightarrow> Some EACCES | _ \<Rightarrow> None)"
  by (simp_all add: undeletable_platform_def cooperative_platform_def example_platform_def)









text \<open>
  The theorem on a platform without a process handle, where nothing changes; on a kill
  that succeeds, after which the PID file is gone; on a kill whose removal of the PID
  file fails, which panics and leaves the files as they were; and on a kill whose first
  signal cannot be delivered, which returns the error and has removed the PID file.
\<close>

theorem killPid_removes_pid_file_witness:
  "killPid nohandle_platform 4242 ''/nodes/0'' running_world =
     Some (Err (ErrKillingDaemon ''/nodes/0'' (ErrExternal ''OpenProcess: access denied'')),
           running_world)
   \<and> files running_world (Join ''/nodes/0'' ''daemon.pid'') = Some ''4242''
   \<and> killPid cooperative_platform 4242 ''/nodes/0'' running_world =
       Some (Ok (),
             \<lparr>files = (files running_world)(Join ''/nodes/0'' ''daemon.pid'' := None),
              trace = EvSignal 4242 SIGINT None # polls 4242 2 @
                        [EvSignal 4242 Signal0 (Some (SyscallError ESRCH))]\<rparr>)
   \<and> killPid undeletable_platform 4242 ''/nodes/0'' running_world =
       Some (Panic (ErrRemovingPidFile ''/nodes/0'' (SyscallError EACCES)),
             \<lparr>files = files running_world,
              trace = EvSignal 4242 SIGINT None # polls 4242 2 @
                        [EvSignal 4242 Signal0 (Some (SyscallError ESRCH))]\<rparr>)
   \<and> killPid gone_platform 4242 ''/nodes/0'' running_world =
       Some (Err (ErrKillingDaemon ''/nodes/0'' (SyscallError ESRCH)),
             \<lparr>files = (files running_world)(Join ''/nodes/0'' ''daemon.pid'' := None),
              trace = [EvSignal 4242 SIGINT (Some (SyscallError ESRCH))]\<rparr>)
   \<and> (\<exists>w'. killPid cooperative_platform 4242 ''/nodes/0'' running_world = Some (Ok (), w') \<and>
          files w' = (files running_world)(Join ''/nodes/0'' ''daemon.pid'' := None))
   \<and> (\<exists>w'. killPid undeletable_platform 4242 ''/nodes/0'' running_world =
            Some (Panic (ErrRemovingPidFile ''/nodes/0'' (SyscallError EACCES)), w') \<and>
          files w' = files running_world)"
proof -
  define tr where "tr = EvSignal 4242 SIGINT None # polls 4242 2 @
                      [EvSignal 4242 Signal0 (Some (SyscallError ESRCH))]"
  define wc where
    "wc = \<lparr>files = (files running_world)(Join ''/nodes/0'' ''daemon.pid'' := None), trace = tr\<rparr>"
  define wu where "wu = \<lparr>files = files running_world, trace = tr\<rparr>"
  note inst = killPid_removes_pid_file[where dir = "''/nodes/0''" and w = running_world
      and pid = 4242]
  have nohandle:
    "FindProcess_err nohandle_platform 4242 = Some (ErrExternal ''OpenProcess: access denied'')"
    by (simp add: nohandle_platform_def example_platform_def)
  from inst[where pf = nohandle_platform, THEN conjunct1, THEN spec, THEN mp, OF nohandle]
  have 1: "killPid nohandle_platform 4242 ''/nodes/0'' running_world =
     Some (Err (ErrKillingDaemon ''/nodes/0'' (ErrExternal ''OpenProcess: access denied'')),
           running_world)" .
  have stage: "FindProcess_err cooperative_platform 4242 = None \<and> 0 \<le> (3::nat) \<and>
      stages_timed_out cooperative_platform 4242 0 running_world"
      "FindProcess_err undeletable_platform 4242 = None \<and> 0 \<le> (3::nat) \<and>
      stages_timed_out undeletable_platform 4242 0 running_world"
      "FindProcess_err gone_platform 4242 = None \<and> 0 \<le> (3::nat) \<and>
      stages_timed_out gone_platform 4242 0 running_world"
    by (simp_all add: cooperative_platform_fields undeletable_platform_fields gone_platform_fields)
  have coop: "Signal_err cooperative_platform (escalated 4242 0 running_world) 4242 (kill_signal 0)
        = None \<and>
      (0 < (3::nat) \<longrightarrow> 2 < stage_polls 0) \<and>
      alive_for cooperative_platform 4242 2 (signalled 4242 0 None running_world) \<and>
      Signal_err cooperative_platform (polled 4242 2 (signalled 4242 0 None running_world))
        4242 Signal0 = Some (SyscallError ESRCH)"
    using cooperative_stage[OF cooperative_platform_fields(2)] by simp
  have und: "Signal_err undeletable_platform (escalated 4242 0 running_world) 4242 (kill_signal 0)
        = None \<and>
      (0 < (3::nat) \<longrightarrow> 2 < stage_polls 0) \<and>
      alive_for undeletable_platform 4242 2 (signalled 4242 0 None running_world) \<and>
      Signal_err undeletable_platform (polled 4242 2 (signalled 4242 0 None running_world))
        4242 Signal0 = Some (SyscallError ESRCH)"
    using cooperative_stage[OF undeletable_platform_fields(2)] by simp
  have gone: "Signal_err gone_platform (escalated 4242 0 running_world) 4242 (kill_signal 0)
        = Some (SyscallError ESRCH)"
    by (simp add: gone_platform_fields)
  from inst[where pf = cooperative_platform and n = 0, THEN conjunct2, THEN conjunct2,
      THEN mp, OF stage(1), THEN conjunct2, THEN spec, THEN spec, THEN mp, OF coop]
  have 2: "killPid cooperative_platform 4242 ''/nodes/0'' running_world = Some (Ok (), wc)"
    by (simp add: cooperative_platform_fields gone_at_def signalled_def kill_signals
        running_world_def wc_def tr_def)
  from inst[where pf = undeletable_platform and n = 0, THEN conjunct2, THEN conjunct2,
      THEN mp, OF stage(2), THEN conjunct2, THEN spec, THEN spec, THEN mp, OF und]
  have 3: "killPid undeletable_platform 4242 ''/nodes/0'' running_world =
      Some (Panic (ErrRemovingPidFile ''/nodes/0'' (SyscallError EACCES)), wu)"
    by (simp add: undeletable_platform_fields gone_at_def signalled_def kill_signals
        running_world_def wu_def tr_def)
  from inst[where pf = gone_platform and n = 0, THEN conjunct2, THEN conjunct2,
      THEN mp, OF stage(3), THEN conjunct1, THEN spec, THEN mp, OF gone]
  have 4: "killPid gone_platform 4242 ''/nodes/0'' running_world =
       Some (Err (ErrKillingDaemon ''/nodes/0'' (SyscallError ESRCH)),
             \<lparr>files = (files running_world)(Join ''/nodes/0'' ''daemon.pid'' := None),
              trace = [EvSignal 4242 SIGINT (Some (SyscallError ESRCH))]\<rparr>)"
    by (simp add: gone_platform_fields signalled_def kill_signals running_world_def)
  have c: "FindProcess_err cooperative_platform 4242 = None \<and>
      killPid cooperative_platform 4242 ''/nodes/0'' running_world = Some (Ok (), wc)"
    and c': "io_err cooperative_platform (wc\<lparr>files := files running_world\<rparr>)
      (OpRemove (Join ''/nodes/0'' ''daemon.pid'')) = None"
    using 2 by (simp_all add: cooperative_platform_fields)
  have u: "FindProcess_err undeletable_platform 4242 = None \<and>
      killPid undeletable_platform 4242 ''/nodes/0'' running_world =
        Some (Panic (ErrRemovingPidFile ''/nodes/0'' (SyscallError EACCES)), wu)"
    and u': "io_err undeletable_platform (wu\<lparr>files := files running_world\<rparr>)
      (OpRemove (Join ''/nodes/0'' ''daemon.pid'')) = Some EACCES"
    using 3 by (simp_all add: undeletable_platform_fields)
  from inst[where pf = cooperative_platform and r = "Ok ()" and w' = wc,
      THEN conjunct2, THEN conjunct1, THEN mp, OF c, THEN conjunct1, THEN mp, OF c']
  have "files wc = (files running_world)(Join ''/nodes/0'' ''daemon.pid'' := None)"
    by simp
  with 2 have 5: "\<exists>w'. killPid cooperative_platform 4242 ''/nodes/0'' running_world =
          Some (Ok (), w') \<and>
          files w' = (files running_world)(Join ''/nodes/0'' ''daemon.pid'' := None)"
    by blast
  from inst[where pf = undeletable_platform
      and r = "Panic (ErrRemovingPidFile ''/nodes/0'' (SyscallError EACCES))" and w' = wu,
      THEN conjunct2, THEN conjunct1, THEN mp, OF u, THEN conjunct2, THEN spec, THEN mp,
      OF u']
  have "files wu = files running_world"
    by simp
  with 3 have 6: "\<exists>w'. killPid undeletable_platform 4242 ''/nodes/0'' running_world =
            Some (Panic (ErrRemovingPidFile ''/nodes/0'' (SyscallError EACCES)), w') \<and>
          files w' = files running_world"
    by blast
  from 1 2 3 4 5 6 show ?thesis
    unfolding wc_def wu_def tr_def by (simp add: running_world_fields)
qed

text \<open>
  Claim C2 as it is written says that the PID file is left in place when a signal cannot
  be delivered. It is not: the first interrupt to a process that is gone fails,
  \<^verbatim>\<open>killPid\<close> returns the error, and the PID file has been removed.
\<close>

theorem killPid_undelivered_counterexample:
  "files running_world (Join ''/nodes/0'' ''daemon.pid'') = Some ''4242''
   \<and> killPid gone_platform 4242 ''/nodes/0'' running_world =
     Some (Err (ErrKillingDaemon ''/nodes/0'' (SyscallError ESRCH)),
           \<lparr>files = (files running_world)(Join ''/nodes/0'' ''daemon.pid'' := None),
            trace = [EvSignal 4242 SIGINT (Some (SyscallError ESRCH))]\<rparr>)
   \<and> ((files running_world)(Join ''/nodes/0'' ''daemon.pid'' := None))
        (Join ''/nodes/0'' ''daemon.pid'') = None"
  by (simp add: gone_killPid running_world_fields)

end
